theory Spec2Isabelle
  imports Complex_Main "HOL-Library.AList"
begin

section \<open>Numeric values of a pandas column\<close>

text \<open>
  Every column of a pandas DataFrame handled by the analyzer holds float64 values. The
  model keeps the three special values of IEEE-754 that the indicator code can produce
  (the two infinities and NaN, which pandas also uses as its "missing" marker) and
  treats every finite value as an exact real number: rounding is not modelled, and the
  two signed zeros are one value. The arithmetic on special values is that of IEEE-754:
  a nonzero finite number divided by zero is an infinity, \<open>0/0\<close> and \<open>inf - inf\<close>
  are NaN, and NaN is absorbing.
\<close>

datatype float64 = Fin real | PInf | NInf | NaN

fun isna :: "float64 \<Rightarrow> bool" where
  "isna NaN = True"
| "isna _ = False"

fun is_fin :: "float64 \<Rightarrow> bool" where
  "is_fin (Fin _) = True"
| "is_fin _ = False"

fun the_fin :: "float64 \<Rightarrow> real" where
  "the_fin (Fin x) = x"
| "the_fin _ = 0"

fun fneg :: "float64 \<Rightarrow> float64" where
  "fneg (Fin a) = Fin (- a)"
| "fneg PInf = NInf"
| "fneg NInf = PInf"
| "fneg NaN = NaN"

fun fadd :: "float64 \<Rightarrow> float64 \<Rightarrow> float64" where
  "fadd (Fin a) (Fin b) = Fin (a + b)"
| "fadd NaN _ = NaN"
| "fadd _ NaN = NaN"
| "fadd PInf NInf = NaN"
| "fadd NInf PInf = NaN"
| "fadd PInf _ = PInf"
| "fadd _ PInf = PInf"
| "fadd NInf _ = NInf"
| "fadd _ NInf = NInf"

definition fsub :: "float64 \<Rightarrow> float64 \<Rightarrow> float64" where
  "fsub a b = fadd a (fneg b)"

fun fmul :: "float64 \<Rightarrow> float64 \<Rightarrow> float64" where
  "fmul (Fin a) (Fin b) = Fin (a * b)"
| "fmul NaN _ = NaN"
| "fmul _ NaN = NaN"
| "fmul (Fin a) PInf = (if 0 < a then PInf else if a < 0 then NInf else NaN)"
| "fmul (Fin a) NInf = (if 0 < a then NInf else if a < 0 then PInf else NaN)"
| "fmul PInf (Fin b) = (if 0 < b then PInf else if b < 0 then NInf else NaN)"
| "fmul NInf (Fin b) = (if 0 < b then NInf else if b < 0 then PInf else NaN)"
| "fmul PInf PInf = PInf"
| "fmul NInf NInf = PInf"
| "fmul PInf NInf = NInf"
| "fmul NInf PInf = NInf"

fun fdiv :: "float64 \<Rightarrow> float64 \<Rightarrow> float64" where
  "fdiv (Fin a) (Fin b) =
     (if b = 0 then (if 0 < a then PInf else if a < 0 then NInf else NaN)
      else Fin (a / b))"
| "fdiv NaN _ = NaN"
| "fdiv _ NaN = NaN"
| "fdiv (Fin a) PInf = Fin 0"
| "fdiv (Fin a) NInf = Fin 0"
| "fdiv PInf (Fin b) = (if b < 0 then NInf else PInf)"
| "fdiv NInf (Fin b) = (if b < 0 then PInf else NInf)"
| "fdiv PInf PInf = NaN"
| "fdiv PInf NInf = NaN"
| "fdiv NInf PInf = NaN"
| "fdiv NInf NInf = NaN"

text \<open>Comparisons: any comparison with NaN is false, as in Python.\<close>

fun fgt :: "float64 \<Rightarrow> float64 \<Rightarrow> bool" where
  "fgt (Fin a) (Fin b) = (b < a)"
| "fgt NaN _ = False"
| "fgt _ NaN = False"
| "fgt PInf PInf = False"
| "fgt PInf _ = True"
| "fgt _ PInf = False"
| "fgt NInf _ = False"
| "fgt _ NInf = True"

definition flt :: "float64 \<Rightarrow> float64 \<Rightarrow> bool" where
  "flt a b = fgt b a"

section \<open>pandas Series operations used by the analyzer\<close>

type_synonym series = "float64 list"

text \<open>\<^verbatim>\<open>s.diff()\<close>: the first row is NaN, row \<open>i\<close> is \<open>s[i] - s[i-1]\<close>.\<close>

definition s_diff :: "series \<Rightarrow> series" where
  "s_diff xs = (case xs of [] \<Rightarrow> [] | _ # rest \<Rightarrow> NaN # map2 (\<lambda>prev cur. fsub cur prev) xs rest)"

text \<open>\<^verbatim>\<open>s.pct_change()\<close>: the first row is NaN, row \<open>i\<close> is \<open>s[i] / s[i-1] - 1\<close>
  (missing rows are not filled before the division).\<close>

definition pct_change :: "series \<Rightarrow> series" where
  "pct_change xs =
     (case xs of [] \<Rightarrow> []
      | _ # rest \<Rightarrow> NaN # map2 (\<lambda>prev cur. fsub (fdiv cur prev) (Fin 1)) xs rest)"

text \<open>\<^verbatim>\<open>s > c\<close> and \<^verbatim>\<open>s < c\<close> against a scalar give a boolean mask;
  \<^verbatim>\<open>s.where(mask, other)\<close> keeps the rows where the mask holds and puts
  \<open>other\<close> elsewhere (so a NaN row, whose comparison is false, is replaced).\<close>

definition s_gt :: "series \<Rightarrow> float64 \<Rightarrow> bool list" where
  "s_gt xs c = map (\<lambda>x. fgt x c) xs"

definition s_lt :: "series \<Rightarrow> float64 \<Rightarrow> bool list" where
  "s_lt xs c = map (\<lambda>x. flt x c) xs"

definition s_where :: "series \<Rightarrow> bool list \<Rightarrow> float64 \<Rightarrow> series" where
  "s_where xs cond other = map2 (\<lambda>x c. if c then x else other) xs cond"

definition s_neg :: "series \<Rightarrow> series" where
  "s_neg xs = map fneg xs"

text \<open>Arithmetic between two Series on the same index is row by row.\<close>

definition s_add :: "series \<Rightarrow> series \<Rightarrow> series" where
  "s_add xs ys = map2 fadd xs ys"

definition s_sub :: "series \<Rightarrow> series \<Rightarrow> series" where
  "s_sub xs ys = map2 fsub xs ys"

definition s_div :: "series \<Rightarrow> series \<Rightarrow> series" where
  "s_div xs ys = map2 fdiv xs ys"

text \<open>
  \<^verbatim>\<open>s.rolling(window=k)\<close>: the window of row \<open>i\<close> holds the rows
  \<open>i-k+1 .. i\<close> that exist. pandas turns infinities into NaN before a rolling
  aggregation, counts the remaining observations, and returns NaN unless there are at
  least \<open>min_periods\<close> of them; \<open>min_periods\<close> defaults to the window size.
\<close>

definition window :: "nat \<Rightarrow> series \<Rightarrow> nat \<Rightarrow> series" where
  "window k xs i = drop (Suc i - k) (take (Suc i) xs)"

definition window_mean :: "nat \<Rightarrow> series \<Rightarrow> float64" where
  "window_mean minp w =
     (let obs = map the_fin (filter is_fin w) in
      if minp \<le> length obs \<and> 0 < length obs
      then Fin (sum_list obs / real (length obs)) else NaN)"

definition rolling_mean :: "nat \<Rightarrow> series \<Rightarrow> series" where
  "rolling_mean k xs = map (\<lambda>i. window_mean k (window k xs i)) [0..<length xs]"

text \<open>The rolling standard deviation is the sample one (\<open>ddof = 1\<close>).\<close>

definition window_std :: "nat \<Rightarrow> series \<Rightarrow> float64" where
  "window_std minp w =
     (let obs = map the_fin (filter is_fin w); n = length obs in
      if minp \<le> n \<and> 1 < n
      then (let m = sum_list obs / real n in
            Fin (sqrt (sum_list (map (\<lambda>x. (x - m)\<^sup>2) obs) / real (n - 1))))
      else NaN)"

definition rolling_std :: "nat \<Rightarrow> series \<Rightarrow> series" where
  "rolling_std k xs = map (\<lambda>i. window_std k (window k xs i)) [0..<length xs]"

text \<open>
  \<^verbatim>\<open>s.ewm(span=n, adjust=False).mean()\<close> with \<open>\<alpha> = 2/(n+1)\<close>: the first
  value seeds the average and each later observation \<open>x\<close> gives
  \<open>(1-\<alpha>) * previous + \<alpha> * x\<close>. A missing row repeats the previous average, and
  the weight of the previous average decays through the gap (\<open>ignore_na=False\<close>),
  the result being normalised by the sum of the two weights. As before a rolling
  aggregation, pandas turns infinities into NaN first, so an infinite row is a missing
  row: \<open>ewm_loop\<close> is the recurrence, \<open>ewm_mean\<close> applies it to the prepared values.
\<close>

fun ewm_loop :: "real \<Rightarrow> float64 \<Rightarrow> real \<Rightarrow> series \<Rightarrow> series" where
  "ewm_loop \<alpha> weighted old_wt [] = []"
| "ewm_loop \<alpha> weighted old_wt (cur # rest) =
     (if isna weighted
      then (if isna cur then weighted # ewm_loop \<alpha> weighted old_wt rest
            else cur # ewm_loop \<alpha> cur old_wt rest)
      else (let ow = old_wt * (1 - \<alpha>) in
            if isna cur then weighted # ewm_loop \<alpha> weighted ow rest
            else (let w = (if weighted = cur then weighted
                           else fdiv (fadd (fmul (Fin ow) weighted) (fmul (Fin \<alpha>) cur))
                                     (Fin (ow + \<alpha>)))
                  in w # ewm_loop \<alpha> w 1 rest)))"

definition ewm_mean :: "nat \<Rightarrow> series \<Rightarrow> series" where
  "ewm_mean n xs =
     (case map (\<lambda>x. if is_fin x then x else NaN) xs of
        [] \<Rightarrow> []
      | x # rest \<Rightarrow> x # ewm_loop (2 / (real n + 1)) x 1 rest)"


text \<open>Arithmetic between a scalar and a Series applies to every row.\<close>

definition c_add :: "float64 \<Rightarrow> series \<Rightarrow> series" where
  "c_add c xs = map (\<lambda>x. fadd c x) xs"

definition c_sub :: "float64 \<Rightarrow> series \<Rightarrow> series" where
  "c_sub c xs = map (\<lambda>x. fsub c x) xs"

definition c_div :: "float64 \<Rightarrow> series \<Rightarrow> series" where
  "c_div c xs = map (\<lambda>x. fdiv c x) xs"

definition s_mul_c :: "series \<Rightarrow> float64 \<Rightarrow> series" where
  "s_mul_c xs c = map (\<lambda>x. fmul x c) xs"

definition s_div_c :: "series \<Rightarrow> float64 \<Rightarrow> series" where
  "s_div_c xs c = map (\<lambda>x. fdiv x c) xs"

definition s_sub_c :: "series \<Rightarrow> float64 \<Rightarrow> series" where
  "s_sub_c xs c = map (\<lambda>x. fsub x c) xs"

text \<open>\<^verbatim>\<open>s.max()\<close>, \<^verbatim>\<open>s.min()\<close> and \<^verbatim>\<open>s.mean()\<close> skip the missing
  rows and are NaN when no row is left.\<close>

definition s_max :: "series \<Rightarrow> float64" where
  "s_max xs =
     (case filter (\<lambda>x. x \<noteq> NaN) xs of [] \<Rightarrow> NaN
      | y # ys \<Rightarrow> fold (\<lambda>x m. if fgt x m then x else m) ys y)"

definition s_min :: "series \<Rightarrow> float64" where
  "s_min xs =
     (case filter (\<lambda>x. x \<noteq> NaN) xs of [] \<Rightarrow> NaN
      | y # ys \<Rightarrow> fold (\<lambda>x m. if flt x m then x else m) ys y)"

definition s_mean :: "series \<Rightarrow> float64" where
  "s_mean xs =
     (let obs = filter (\<lambda>x. x \<noteq> NaN) xs in
      fdiv (fold (\<lambda>x acc. fadd acc x) obs (Fin 0)) (Fin (real (length obs))))"

section \<open>Exceptions, DataFrames and the object heap\<close>

datatype error =
    KeyError string      \<comment> \<open>a column that the frame does not have\<close>
  | IndexError           \<comment> \<open>\<open>iloc\<close> outside the rows\<close>
  | TypeError            \<comment> \<open>subscripting \<open>None\<close>\<close>
  | FetchError           \<comment> \<open>any exception raised by the data source\<close>
  | InvalidReference     \<comment> \<open>never raised by Python: a reference outside the heap\<close>

definition bindE :: "error + 'a \<Rightarrow> ('a \<Rightarrow> error + 'b) \<Rightarrow> error + 'b" where
  "bindE m f = (case m of Inl e \<Rightarrow> Inl e | Inr x \<Rightarrow> f x)"

text \<open>\<^verbatim>\<open>s.iloc[i]\<close>: a negative position counts from the end, a position outside
  the rows raises IndexError.\<close>

definition iloc :: "series \<Rightarrow> int \<Rightarrow> error + float64" where
  "iloc xs i =
     (if 0 \<le> i \<and> i < int (length xs) then Inr (xs ! nat i)
      else if i < 0 \<and> - int (length xs) \<le> i then Inr (xs ! nat (int (length xs) + i))
      else Inl IndexError)"

text \<open>
  A DataFrame is its row index (the timestamps) and its columns in insertion order.
  Assigning a column replaces the column of that name where it stands, or appends a new
  one. Every Series the analyzer assigns is derived from a column of the same frame, so
  the index alignment of pandas is the identity.
\<close>

record dataframe =
  df_index :: "nat list"
  df_columns :: "(string \<times> series) list"

definition getitem :: "dataframe \<Rightarrow> string \<Rightarrow> error + series" where
  "getitem df name =
     (case map_of (df_columns df) name of None \<Rightarrow> Inl (KeyError name) | Some col \<Rightarrow> Inr col)"

definition setitem :: "dataframe \<Rightarrow> string \<Rightarrow> series \<Rightarrow> dataframe" where
  "setitem df name col = df\<lparr>df_columns := AList.update name col (df_columns df)\<rparr>"

definition df_empty :: "dataframe \<Rightarrow> bool" where
  "df_empty df = (df_index df = [] \<or> df_columns df = [])"

definition df_len :: "dataframe \<Rightarrow> nat" where
  "df_len df = length (df_index df)"

text \<open>
  DataFrames are mutable objects: the heap holds them, a reference is a position in the
  heap, and a statement of the program maps a heap to a result (or an exception) and the
  heap it leaves.
\<close>

type_synonym ref = nat
type_synonym heap = "dataframe list"
type_synonym 'a prog = "heap \<Rightarrow> (error + 'a) \<times> heap"

definition ret :: "'a \<Rightarrow> 'a prog" where
  "ret x h = (Inr x, h)"

definition lift :: "error + 'a \<Rightarrow> 'a prog" where
  "lift r h = (r, h)"

definition and_then :: "'a prog \<Rightarrow> ('a \<Rightarrow> 'b prog) \<Rightarrow> 'b prog" where
  "and_then m f h = (case m h of (Inl e, h') \<Rightarrow> (Inl e, h') | (Inr x, h') \<Rightarrow> f x h')"

definition get_column :: "ref \<Rightarrow> string \<Rightarrow> series prog" where
  "get_column r name h =
     (if r < length h then (getitem (h ! r) name, h) else (Inl InvalidReference, h))"

definition set_column :: "ref \<Rightarrow> string \<Rightarrow> series \<Rightarrow> unit prog" where
  "set_column r name col h =
     (if r < length h then (Inr (), h[r := setitem (h ! r) name col])
      else (Inl InvalidReference, h))"

text \<open>\<^verbatim>\<open>data.copy()\<close> allocates a new frame with the same index and columns.\<close>

definition copy :: "ref \<Rightarrow> ref prog" where
  "copy r h =
     (if r < length h then (Inr (length h), h @ [h ! r]) else (Inl InvalidReference, h))"

section \<open>stock\_analyzer.py: class StockAnalyzer\<close>

record stock_analyzer =
  sa_ticker :: string
  sa_period :: string
  sa_data :: "ref option"

text \<open>The fields \<open>ticker\<close>, \<open>period\<close> and \<open>data\<close> of the object carry the prefix
  \<open>sa_\<close>. \<^verbatim>\<open>self.data[name]\<close> and \<^verbatim>\<open>self.data[name] = col\<close>: \<open>self.data\<close> is
  \<open>None\<close> until a fetch has stored a frame.\<close>

definition self_get :: "stock_analyzer \<Rightarrow> string \<Rightarrow> series prog" where
  "self_get self name =
     (case sa_data self of None \<Rightarrow> lift (Inl TypeError) | Some r \<Rightarrow> get_column r name)"

definition self_set :: "stock_analyzer \<Rightarrow> string \<Rightarrow> series \<Rightarrow> unit prog" where
  "self_set self name col =
     (case sa_data self of None \<Rightarrow> lift (Inl TypeError) | Some r \<Rightarrow> set_column r name col)"

text \<open>
  \<open>calculate_technical_indicators\<close> (lines 142-178): every statement reads
  \<^verbatim>\<open>self.data['Close']\<close> again and assigns one column of \<open>self.data\<close> in place;
  \<open>delta\<close>, \<open>gain\<close>, \<open>loss\<close>, \<open>rs\<close>, \<open>exp1\<close>, \<open>exp2\<close> and \<open>bb_std_dev\<close>
  are its local Series. It returns \<open>None\<close>.
\<close>

definition calculate_technical_indicators :: "stock_analyzer \<Rightarrow> unit prog" where
  "calculate_technical_indicators self =
     and_then (self_get self ''Close'') (\<lambda>close.
     and_then (self_set self ''SMA_10'' (rolling_mean 10 close)) (\<lambda>_.
     and_then (self_get self ''Close'') (\<lambda>close.
     and_then (self_set self ''SMA_30'' (rolling_mean 30 close)) (\<lambda>_.
     and_then (self_get self ''Close'') (\<lambda>close.
     and_then (self_set self ''SMA_60'' (rolling_mean 60 close)) (\<lambda>_.
     and_then (self_get self ''Close'') (\<lambda>close.
     and_then (self_set self ''Volatility'' (rolling_std 20 close)) (\<lambda>_.
     and_then (self_get self ''Close'') (\<lambda>close.
     (let delta = s_diff close;
          gain = rolling_mean 14 (s_where delta (s_gt delta (Fin 0)) (Fin 0));
          loss = rolling_mean 14 (s_neg (s_where delta (s_lt delta (Fin 0)) (Fin 0)));
          rs = s_div gain loss in
     and_then (self_set self ''RSI'' (c_sub (Fin 100) (c_div (Fin 100) (c_add (Fin 1) rs)))) (\<lambda>_.
     and_then (self_get self ''Close'') (\<lambda>close.
     (let exp1 = ewm_mean 12 close in
     and_then (self_get self ''Close'') (\<lambda>close.
     (let exp2 = ewm_mean 26 close in
     and_then (self_set self ''MACD'' (s_sub exp1 exp2)) (\<lambda>_.
     and_then (self_get self ''MACD'') (\<lambda>macd.
     and_then (self_set self ''Signal'' (ewm_mean 9 macd)) (\<lambda>_.
     and_then (self_get self ''MACD'') (\<lambda>macd.
     and_then (self_get self ''Signal'') (\<lambda>signal.
     and_then (self_set self ''Histogram'' (s_sub macd signal)) (\<lambda>_.
     (let bb_period = 20; bb_std = Fin 2 in
     and_then (self_get self ''Close'') (\<lambda>close.
     and_then (self_set self ''BB_Middle'' (rolling_mean bb_period close)) (\<lambda>_.
     and_then (self_get self ''Close'') (\<lambda>close.
     (let bb_std_dev = rolling_std bb_period close in
     and_then (self_get self ''BB_Middle'') (\<lambda>bb_middle.
     and_then (self_set self ''BB_Upper'' (s_add bb_middle (s_mul_c bb_std_dev bb_std))) (\<lambda>_.
     and_then (self_get self ''BB_Middle'') (\<lambda>bb_middle.
     and_then (self_set self ''BB_Lower'' (s_sub bb_middle (s_mul_c bb_std_dev bb_std))) (\<lambda>_.
     and_then (self_get self ''Close'') (\<lambda>close.
     self_set self ''Daily_Return'' (s_mul_c (pct_change close) (Fin 100))
     )))))))))))))))))))))))))))))))"


text \<open>
  The labels of \<open>analyze_trend\<close> and of the dashboard. The source writes them as
  Japanese text, some with an English gloss:
  \<^item> \<open>StrongBullish\<close>: "Strong Bullish", \<open>ModeratelyBullish\<close>: "Moderately Bullish",
    \<open>StrongBearish\<close>: "Strong Bearish", \<open>ModeratelyBearish\<close>: "Moderately Bearish",
    \<open>Sideways\<close>: "Sideways", \<open>DataShortage\<close>: the dashboard's "data shortage" badge;
  \<^item> \<open>Overbought\<close>, \<open>Oversold\<close>, \<open>Neutral\<close>: the RSI signal;
  \<^item> \<open>Bullish\<close>: the buy signal, \<open>Bearish\<close>: the sell signal of the MACD.
  The emoji and colour that \<open>analyze_trend\<close> returns with the trend are fixed by the
  branch that chose the label and are not modelled.
\<close>

datatype trend_label =
  StrongBullish | ModeratelyBullish | StrongBearish | ModeratelyBearish | Sideways | DataShortage

datatype rsi_label = Overbought | Oversold | Neutral

datatype macd_label = Bullish | Bearish

record trend_assessment =
  trend :: trend_label
  latest_price :: float64
  sma_10 :: float64
  sma_30 :: float64
  rsi :: float64
  rsi_signal :: rsi_label
  macd :: float64
  signal :: float64
  macd_signal :: macd_label
  period_return :: float64
  volatility :: float64
  high :: float64
  low :: float64
  avg_volume :: float64

definition self_iloc :: "stock_analyzer \<Rightarrow> string \<Rightarrow> int \<Rightarrow> float64 prog" where
  "self_iloc self name i = and_then (self_get self name) (\<lambda>col. lift (iloc col i))"

definition analyze_trend :: "stock_analyzer \<Rightarrow> trend_assessment prog" where
  "analyze_trend self =
     and_then (self_iloc self ''Close'' (- 1)) (\<lambda>latest_price.
     and_then (self_iloc self ''SMA_10'' (- 1)) (\<lambda>sma_10.
     and_then (self_iloc self ''SMA_30'' (- 1)) (\<lambda>sma_30.
     and_then (self_iloc self ''RSI'' (- 1)) (\<lambda>rsi.
     and_then (self_iloc self ''MACD'' (- 1)) (\<lambda>macd.
     and_then (self_iloc self ''Signal'' (- 1)) (\<lambda>signal.
     (let trend =
            (if fgt latest_price sma_10 \<and> fgt sma_10 sma_30 then StrongBullish
             else if fgt latest_price sma_10 then ModeratelyBullish
             else if flt latest_price sma_10 \<and> flt sma_10 sma_30 then StrongBearish
             else if flt latest_price sma_10 then ModeratelyBearish
             else Sideways);
          rsi_signal =
            (if fgt rsi (Fin 70) then Overbought
             else if flt rsi (Fin 30) then Oversold
             else Neutral);
          macd_signal = (if fgt macd signal then Bullish else Bearish) in
     and_then (self_iloc self ''Close'' 0) (\<lambda>first_close.
     (let period_return = fmul (fsub (fdiv latest_price first_close) (Fin 1)) (Fin 100) in
     and_then (self_iloc self ''Volatility'' (- 1)) (\<lambda>volatility.
     and_then (self_get self ''High'') (\<lambda>high.
     and_then (self_get self ''Low'') (\<lambda>low.
     and_then (self_get self ''Volume'') (\<lambda>volume.
     ret \<lparr>trend = trend, latest_price = latest_price, sma_10 = sma_10, sma_30 = sma_30,
          rsi = rsi, rsi_signal = rsi_signal, macd = macd, signal = signal,
          macd_signal = macd_signal, period_return = period_return,
          volatility = volatility, high = s_max high, low = s_min low,
          avg_volume = s_mean volume\<rparr>
     )))))))))))))"

text \<open>
  The data source (\<open>yfinance\<close>) is a parameter: for a ticker and a period it raises or
  returns a frame. \<open>fetch_data\<close> stores the frame it gets in \<open>self.data\<close> before it
  looks whether it is empty; any exception makes it return \<open>False\<close>.
\<close>

type_synonym history = "string \<Rightarrow> string \<Rightarrow> error + dataframe"

definition alloc :: "dataframe \<Rightarrow> ref prog" where
  "alloc df h = (Inr (length h), h @ [df])"

definition fetch_data :: "history \<Rightarrow> stock_analyzer \<Rightarrow> (bool \<times> stock_analyzer) prog" where
  "fetch_data yf self =
     (case yf (sa_ticker self) (sa_period self) of
        Inl e \<Rightarrow> ret (False, self)
      | Inr df \<Rightarrow>
          and_then (alloc df) (\<lambda>r.
          (let self' = self\<lparr>sa_data := Some r\<rparr> in
           if df_empty df then ret (False, self') else ret (True, self'))))"

text \<open>\<open>run\<close> stops with \<open>False\<close> when the fetch fails; otherwise it computes the
  indicators and analyses the trend twice, for the chart title and for the report (the
  rendering and the files are not modelled), and returns \<open>True\<close>.\<close>

definition run :: "history \<Rightarrow> stock_analyzer \<Rightarrow> (bool \<times> trend_assessment option) prog" where
  "run yf self =
     and_then (fetch_data yf self) (\<lambda>(ok, self').
     if \<not> ok then ret (False, None)
     else and_then (calculate_technical_indicators self') (\<lambda>_.
          and_then (analyze_trend self') (\<lambda>chart_analysis.
          and_then (analyze_trend self') (\<lambda>analysis.
          ret (True, Some analysis)))))"


section \<open>stock\_analyzer.py: compare\_stocks\<close>

text \<open>
  \<open>all_data\<close> is a Python dict in insertion order: a ticker fetched twice keeps its
  first place and takes the later frame. A ticker whose fetch raises, or whose frame is
  empty, is not entered, and the loop goes on with the next ticker.
\<close>

type_synonym all_data = "(string \<times> dataframe) list"

definition cs_fetch_step :: "history \<Rightarrow> string \<Rightarrow> all_data \<Rightarrow> string \<Rightarrow> all_data" where
  "cs_fetch_step yf period all_data ticker =
     (case yf ticker period of
        Inl e \<Rightarrow> all_data
      | Inr data \<Rightarrow> if \<not> df_empty data then AList.update ticker data all_data else all_data)"

definition cs_fetch :: "history \<Rightarrow> string \<Rightarrow> string list \<Rightarrow> all_data" where
  "cs_fetch yf period tickers = foldl (cs_fetch_step yf period) [] tickers"

fun mapE :: "('a \<Rightarrow> error + 'b) \<Rightarrow> 'a list \<Rightarrow> error + 'b list" where
  "mapE f [] = Inr []"
| "mapE f (x # xs) = bindE (f x) (\<lambda>y. bindE (mapE f xs) (\<lambda>ys. Inr (y # ys)))"

text \<open>One panel of a comparison chart: the loop over \<open>all_data.items()\<close> that draws one
  line for each ticker; the model keeps the Series drawn.\<close>

definition panel :: "(dataframe \<Rightarrow> error + 'a) \<Rightarrow> all_data \<Rightarrow> error + (string \<times> 'a) list" where
  "panel body all_data =
     mapE (\<lambda>(ticker, data). bindE (body data) (\<lambda>line. Inr (ticker, line))) all_data"

text \<open>The bodies of the four loops of \<open>compare_stocks\<close> (lines 517-575) and of its
  summary (lines 599-607).\<close>

definition cs_normalized :: "dataframe \<Rightarrow> error + series" where
  "cs_normalized data =
     bindE (getitem data ''Close'') (\<lambda>close.
     bindE (getitem data ''Close'') (\<lambda>close'.
     bindE (iloc close' 0) (\<lambda>first_close.
     Inr (s_mul_c (s_div_c close first_close) (Fin 100)))))"

definition cs_rsi :: "dataframe \<Rightarrow> error + series" where
  "cs_rsi data =
     bindE (getitem data ''Close'') (\<lambda>close.
     (let delta = s_diff close;
          gain = rolling_mean 14 (s_where delta (s_gt delta (Fin 0)) (Fin 0));
          loss = rolling_mean 14 (s_neg (s_where delta (s_lt delta (Fin 0)) (Fin 0)));
          rs = s_div gain loss;
          rsi = c_sub (Fin 100) (c_div (Fin 100) (c_add (Fin 1) rs))
      in Inr rsi))"

definition cs_returns :: "dataframe \<Rightarrow> error + series" where
  "cs_returns data =
     bindE (getitem data ''Close'') (\<lambda>close. Inr (s_mul_c (pct_change close) (Fin 100)))"

definition cs_cumulative :: "dataframe \<Rightarrow> error + series \<times> float64" where
  "cs_cumulative data =
     bindE (getitem data ''Close'') (\<lambda>close.
     bindE (getitem data ''Close'') (\<lambda>close'.
     bindE (iloc close' 0) (\<lambda>first_close.
     (let cumulative = s_mul_c (s_sub_c (s_div_c close first_close) (Fin 1)) (Fin 100) in
      bindE (iloc cumulative (- 1)) (\<lambda>final. Inr (cumulative, final))))))"

definition cs_summary :: "dataframe \<Rightarrow> error + float64 \<times> float64 \<times> float64" where
  "cs_summary data =
     bindE (getitem data ''Close'') (\<lambda>close.
     bindE (iloc close (- 1)) (\<lambda>latest.
     bindE (getitem data ''Close'') (\<lambda>close'.
     bindE (iloc close' 0) (\<lambda>first_close.
     (let ret = fmul (fsub (fdiv latest first_close) (Fin 1)) (Fin 100) in
      bindE (getitem data ''Close'') (\<lambda>close''.
      (let delta = s_diff close'';
           gain = rolling_mean 14 (s_where delta (s_gt delta (Fin 0)) (Fin 0));
           loss = rolling_mean 14 (s_neg (s_where delta (s_lt delta (Fin 0)) (Fin 0)));
           rs = s_div gain loss in
       bindE (iloc (c_sub (Fin 100) (c_div (Fin 100) (c_add (Fin 1) rs))) (- 1)) (\<lambda>rsi.
       Inr (latest, ret, rsi)))))))))"

record comparison =
  normalized_panel :: "(string \<times> series) list"
  rsi_panel :: "(string \<times> series) list"
  returns_panel :: "(string \<times> series) list"
  cumulative_panel :: "(string \<times> series \<times> float64) list"

text \<open>\<open>compare_stocks\<close> returns \<open>False\<close> before it draws anything when fewer than two
  tickers are in \<open>all_data\<close>; otherwise it draws the four panels, prints the summary
  and returns \<open>True\<close>.\<close>

definition compare_stocks ::
  "history \<Rightarrow> string list \<Rightarrow> string
     \<Rightarrow> error + bool \<times> (comparison \<times> (string \<times> float64 \<times> float64 \<times> float64) list) option" where
  "compare_stocks yf tickers period =
     (let all_data = cs_fetch yf period tickers in
      if length all_data < 2 then Inr (False, None)
      else
        bindE (panel cs_normalized all_data) (\<lambda>p1.
        bindE (panel cs_rsi all_data) (\<lambda>p2.
        bindE (panel cs_returns all_data) (\<lambda>p3.
        bindE (panel cs_cumulative all_data) (\<lambda>p4.
        bindE (panel cs_summary all_data) (\<lambda>rows.
        Inr (True, Some (\<lparr>normalized_panel = p1, rsi_panel = p2, returns_panel = p3,
                            cumulative_panel = p4\<rparr>, rows))))))))"

section \<open>app.py: the dashboard\<close>

text \<open>\<open>calculate_indicators\<close> works on a copy of the frame it is given and returns the
  copy.\<close>

definition calculate_indicators :: "ref \<Rightarrow> ref prog" where
  "calculate_indicators data =
     and_then (copy data) (\<lambda>df.
     and_then (get_column df ''Close'') (\<lambda>close.
     and_then (set_column df ''SMA_10'' (rolling_mean 10 close)) (\<lambda>_.
     and_then (get_column df ''Close'') (\<lambda>close.
     and_then (set_column df ''SMA_30'' (rolling_mean 30 close)) (\<lambda>_.
     and_then (get_column df ''Close'') (\<lambda>close.
     and_then (set_column df ''SMA_60'' (rolling_mean 60 close)) (\<lambda>_.
     and_then (get_column df ''Close'') (\<lambda>close.
     and_then (set_column df ''Volatility'' (rolling_std 20 close)) (\<lambda>_.
     and_then (get_column df ''Close'') (\<lambda>close.
     (let delta = s_diff close;
          gain = rolling_mean 14 (s_where delta (s_gt delta (Fin 0)) (Fin 0));
          loss = rolling_mean 14 (s_neg (s_where delta (s_lt delta (Fin 0)) (Fin 0)));
          rs = s_div gain loss in
     and_then (set_column df ''RSI'' (c_sub (Fin 100) (c_div (Fin 100) (c_add (Fin 1) rs)))) (\<lambda>_.
     and_then (get_column df ''Close'') (\<lambda>close.
     (let exp1 = ewm_mean 12 close in
     and_then (get_column df ''Close'') (\<lambda>close.
     (let exp2 = ewm_mean 26 close in
     and_then (set_column df ''MACD'' (s_sub exp1 exp2)) (\<lambda>_.
     and_then (get_column df ''MACD'') (\<lambda>macd.
     and_then (set_column df ''Signal'' (ewm_mean 9 macd)) (\<lambda>_.
     and_then (get_column df ''MACD'') (\<lambda>macd.
     and_then (get_column df ''Signal'') (\<lambda>signal.
     and_then (set_column df ''Histogram'' (s_sub macd signal)) (\<lambda>_.
     (let bb_period = 20 in
     and_then (get_column df ''Close'') (\<lambda>close.
     and_then (set_column df ''BB_Middle'' (rolling_mean bb_period close)) (\<lambda>_.
     and_then (get_column df ''Close'') (\<lambda>close.
     (let bb_std = rolling_std bb_period close in
     and_then (get_column df ''BB_Middle'') (\<lambda>bb_middle.
     and_then (set_column df ''BB_Upper'' (s_add bb_middle (s_mul_c bb_std (Fin 2)))) (\<lambda>_.
     and_then (get_column df ''BB_Middle'') (\<lambda>bb_middle.
     and_then (set_column df ''BB_Lower'' (s_sub bb_middle (s_mul_c bb_std (Fin 2)))) (\<lambda>_.
     ret df
     )))))))))))))))))))))))))))))))"

text \<open>The bodies of the four loops of \<open>create_comparison_chart\<close> (lines 242-280).\<close>

definition cc_norm :: "dataframe \<Rightarrow> error + series" where
  "cc_norm data =
     bindE (getitem data ''Close'') (\<lambda>close.
     bindE (getitem data ''Close'') (\<lambda>close'.
     bindE (iloc close' 0) (\<lambda>first_close.
     Inr (s_mul_c (s_div_c close first_close) (Fin 100)))))"

definition cc_rsi :: "dataframe \<Rightarrow> error + series" where
  "cc_rsi data =
     bindE (getitem data ''Close'') (\<lambda>close.
     (let delta = s_diff close;
          gain = rolling_mean 14 (s_where delta (s_gt delta (Fin 0)) (Fin 0));
          loss = rolling_mean 14 (s_neg (s_where delta (s_lt delta (Fin 0)) (Fin 0)));
          rsi = c_sub (Fin 100) (c_div (Fin 100) (c_add (Fin 1) (s_div gain loss)))
      in Inr rsi))"

definition cc_ret :: "dataframe \<Rightarrow> error + series" where
  "cc_ret data =
     bindE (getitem data ''Close'') (\<lambda>close. Inr (s_mul_c (pct_change close) (Fin 100)))"

definition cc_cum :: "dataframe \<Rightarrow> error + series \<times> float64" where
  "cc_cum data =
     bindE (getitem data ''Close'') (\<lambda>close.
     bindE (getitem data ''Close'') (\<lambda>close'.
     bindE (iloc close' 0) (\<lambda>first_close.
     (let cum = s_mul_c (s_sub_c (s_div_c close first_close) (Fin 1)) (Fin 100) in
      bindE (iloc cum (- 1)) (\<lambda>final. Inr (cum, final))))))"

definition create_comparison_chart :: "all_data \<Rightarrow> string list \<Rightarrow> error + comparison" where
  "create_comparison_chart all_data tickers =
     bindE (panel cc_norm all_data) (\<lambda>p1.
     bindE (panel cc_rsi all_data) (\<lambda>p2.
     bindE (panel cc_ret all_data) (\<lambda>p3.
     bindE (panel cc_cum all_data) (\<lambda>p4.
     Inr \<lparr>normalized_panel = p1, rsi_panel = p2, returns_panel = p3,
          cumulative_panel = p4\<rparr>))))"

text \<open>The single-symbol page: the values and labels of the metric cards and of the trend
  badge (lines 357-396), read from the indicator table.\<close>

record single_metrics =
  m_latest :: float64
  m_change :: float64
  m_change_pct :: float64
  m_period_return :: float64
  m_rsi :: float64
  m_rsi_label :: rsi_label
  m_macd_val :: float64
  m_signal_val :: float64
  m_macd_label :: macd_label
  m_trend_text :: trend_label
  m_avg_volume :: float64

definition frame :: "ref \<Rightarrow> dataframe prog" where
  "frame r h = (if r < length h then (Inr (h ! r), h) else (Inl InvalidReference, h))"

definition col_iloc :: "ref \<Rightarrow> string \<Rightarrow> int \<Rightarrow> float64 prog" where
  "col_iloc r name i = and_then (get_column r name) (\<lambda>col. lift (iloc col i))"

definition single_analysis :: "ref \<Rightarrow> single_metrics prog" where
  "single_analysis data =
     and_then (col_iloc data ''Close'' (- 1)) (\<lambda>latest.
     and_then (frame data) (\<lambda>df.
     and_then (if 1 < df_len df then col_iloc data ''Close'' (- 2) else ret latest) (\<lambda>prev.
     (let change = fsub latest prev;
          change_pct = fmul (fdiv change prev) (Fin 100) in
     and_then (col_iloc data ''Close'' 0) (\<lambda>first_close.
     (let period_return = fmul (fsub (fdiv latest first_close) (Fin 1)) (Fin 100) in
     and_then (col_iloc data ''RSI'' (- 1)) (\<lambda>rsi_last.
     and_then (if \<not> isna rsi_last then col_iloc data ''RSI'' (- 1) else ret (Fin 0)) (\<lambda>rsi.
     and_then (col_iloc data ''MACD'' (- 1)) (\<lambda>macd_last.
     and_then (if \<not> isna macd_last then col_iloc data ''MACD'' (- 1) else ret (Fin 0)) (\<lambda>macd_val.
     and_then (col_iloc data ''Signal'' (- 1)) (\<lambda>signal_last.
     and_then (if \<not> isna signal_last then col_iloc data ''Signal'' (- 1) else ret (Fin 0)) (\<lambda>signal_val.
     and_then (col_iloc data ''SMA_10'' (- 1)) (\<lambda>sma10.
     and_then (col_iloc data ''SMA_30'' (- 1)) (\<lambda>sma30.
     (let trend_text =
            (if \<not> isna sma10 \<and> \<not> isna sma30
             then (if fgt latest sma10 \<and> fgt sma10 sma30 then StrongBullish
                   else if fgt latest sma10 then ModeratelyBullish
                   else if flt latest sma10 \<and> flt sma10 sma30 then StrongBearish
                   else if flt latest sma10 then ModeratelyBearish
                   else Sideways)
             else DataShortage) in
     and_then (get_column data ''Volume'') (\<lambda>volume.
     ret \<lparr>m_latest = latest, m_change = change, m_change_pct = change_pct,
          m_period_return = period_return, m_rsi = rsi,
          m_rsi_label =
            (if fgt rsi (Fin 70) then Overbought
             else (if flt rsi (Fin 30) then Oversold else Neutral)),
          m_macd_val = macd_val, m_signal_val = signal_val,
          m_macd_label = (if fgt macd_val signal_val then Bullish else Bearish),
          m_trend_text = trend_text,
          m_avg_volume = fdiv (s_mean volume) (Fin 1000000)\<rparr>
     ))))))))))))))))"

text \<open>
  What the page shows after the button is pressed: one of the messages that end the run
  (\<open>st.error\<close> or \<open>st.warning\<close> followed by \<open>st.stop()\<close>), the single-symbol view, or
  the comparison view (the summary cards and the chart).
\<close>

datatype app_outcome =
    NoTickers
  | FetchFailed
  | NotFound
  | TooFewTickers
  | InsufficientSymbols
  | SingleView single_metrics
  | ComparisonView "(string \<times> float64 \<times> float64) list" comparison

definition single_mode :: "history \<Rightarrow> string list \<Rightarrow> string \<Rightarrow> app_outcome prog" where
  "single_mode yf tickers selected_period =
     (case tickers of
        [] \<Rightarrow> lift (Inl IndexError)
      | ticker # _ \<Rightarrow>
          (case yf ticker selected_period of
             Inl e \<Rightarrow> ret FetchFailed
           | Inr df \<Rightarrow>
               and_then (alloc df) (\<lambda>data.
               if df_empty df then ret NotFound
               else and_then (calculate_indicators data) (\<lambda>data'.
                    and_then (single_analysis data') (\<lambda>m. ret (SingleView m))))))"

definition app_fetch_step :: "history \<Rightarrow> string \<Rightarrow> all_data \<Rightarrow> string \<Rightarrow> all_data" where
  "app_fetch_step yf selected_period all_data ticker =
     (case yf ticker selected_period of
        Inl e \<Rightarrow> all_data
      | Inr d \<Rightarrow> if \<not> df_empty d then AList.update ticker d all_data else all_data)"

definition app_fetch :: "history \<Rightarrow> string \<Rightarrow> string list \<Rightarrow> all_data" where
  "app_fetch yf selected_period tickers = foldl (app_fetch_step yf selected_period) [] tickers"

definition summary_card :: "dataframe \<Rightarrow> error + float64 \<times> float64" where
  "summary_card d =
     bindE (getitem d ''Close'') (\<lambda>close.
     bindE (iloc close (- 1)) (\<lambda>latest.
     bindE (getitem d ''Close'') (\<lambda>close'.
     bindE (iloc close' 0) (\<lambda>first_close.
     Inr (latest, fmul (fsub (fdiv latest first_close) (Fin 1)) (Fin 100))))))"

definition comparison_mode :: "history \<Rightarrow> string list \<Rightarrow> string \<Rightarrow> error + app_outcome" where
  "comparison_mode yf tickers selected_period =
     (if length tickers < 2 then Inr TooFewTickers
      else (let all_data = app_fetch yf selected_period tickers in
            if length all_data < 2 then Inr InsufficientSymbols
            else bindE (panel summary_card all_data) (\<lambda>cards.
                 bindE (create_comparison_chart all_data tickers) (\<lambda>fig.
                 Inr (ComparisonView cards fig)))))"

datatype mode = SingleSymbol | Comparison

definition analyze :: "mode \<Rightarrow> history \<Rightarrow> string list \<Rightarrow> string \<Rightarrow> app_outcome prog" where
  "analyze mode yf tickers selected_period =
     (if tickers = [] then ret NoTickers
      else (case mode of
              SingleSymbol \<Rightarrow> single_mode yf tickers selected_period
            | Comparison \<Rightarrow> lift (comparison_mode yf tickers selected_period)))"

section \<open>Notions used to state the properties\<close>

text \<open>
  The RSI expression is written out five times in the source (lines 154-158, 531-535 and
  602-606 of stock\_analyzer.py, lines 139-143 and 252-255 of app.py). \<open>rsi_series\<close>
  is that expression as a function of the Close column, \<open>up_moves\<close> and
  \<open>down_moves\<close> are the two Series it averages, and \<open>macd_series\<close> is the MACD
  expression. \<open>with_indicators close df\<close> is the frame \<open>df\<close> after the eleven
  column assignments that both indicator functions make, for a Close column \<open>close\<close>.
\<close>

definition up_moves :: "series \<Rightarrow> series" where
  "up_moves close = s_where (s_diff close) (s_gt (s_diff close) (Fin 0)) (Fin 0)"

definition down_moves :: "series \<Rightarrow> series" where
  "down_moves close = s_neg (s_where (s_diff close) (s_lt (s_diff close) (Fin 0)) (Fin 0))"

definition rsi_series :: "series \<Rightarrow> series" where
  "rsi_series close =
     (let delta = s_diff close;
          gain = rolling_mean 14 (s_where delta (s_gt delta (Fin 0)) (Fin 0));
          loss = rolling_mean 14 (s_neg (s_where delta (s_lt delta (Fin 0)) (Fin 0)));
          rs = s_div gain loss
      in c_sub (Fin 100) (c_div (Fin 100) (c_add (Fin 1) rs)))"

definition macd_series :: "series \<Rightarrow> series" where
  "macd_series close = s_sub (ewm_mean 12 close) (ewm_mean 26 close)"

definition with_indicators :: "series \<Rightarrow> dataframe \<Rightarrow> dataframe" where
  "with_indicators close df =
     (let df1 = setitem df ''SMA_10'' (rolling_mean 10 close);
          df2 = setitem df1 ''SMA_30'' (rolling_mean 30 close);
          df3 = setitem df2 ''SMA_60'' (rolling_mean 60 close);
          df4 = setitem df3 ''Volatility'' (rolling_std 20 close);
          df5 = setitem df4 ''RSI'' (rsi_series close);
          df6 = setitem df5 ''MACD'' (macd_series close);
          df7 = setitem df6 ''Signal'' (ewm_mean 9 (macd_series close));
          df8 = setitem df7 ''Histogram'' (s_sub (macd_series close) (ewm_mean 9 (macd_series close)));
          df9 = setitem df8 ''BB_Middle'' (rolling_mean 20 close);
          df10 = setitem df9 ''BB_Upper''
                   (s_add (rolling_mean 20 close) (s_mul_c (rolling_std 20 close) (Fin 2)))
      in setitem df10 ''BB_Lower''
                   (s_sub (rolling_mean 20 close) (s_mul_c (rolling_std 20 close) (Fin 2))))"

text \<open>
  For a column of finite closes \<open>cs\<close> and a row \<open>i\<close> with fourteen changes behind it:
  the averages of the gains and of the losses over the rows \<open>i-13 .. i\<close>, and whether
  none of these fourteen changes is a loss, or one of them is a gain.
\<close>

definition avg_gain :: "real list \<Rightarrow> nat \<Rightarrow> real" where
  "avg_gain cs i = sum_list (map (\<lambda>t. max (cs ! (i - 13 + t) - cs ! (i - 13 + t - 1)) 0) [0..<14]) / 14"

definition avg_loss :: "real list \<Rightarrow> nat \<Rightarrow> real" where
  "avg_loss cs i = sum_list (map (\<lambda>t. max (cs ! (i - 13 + t - 1) - cs ! (i - 13 + t)) 0) [0..<14]) / 14"

definition no_loss :: "real list \<Rightarrow> nat \<Rightarrow> bool" where
  "no_loss cs i = list_all (\<lambda>j. cs ! (j - 1) \<le> cs ! j) [i - 13..<Suc i]"

definition some_gain :: "real list \<Rightarrow> nat \<Rightarrow> bool" where
  "some_gain cs i = list_ex (\<lambda>j. cs ! (j - 1) < cs ! j) [i - 13..<Suc i]"

text \<open>The names of the price columns of a fetched frame, of the eleven indicator columns
  that both indicator functions assign, and the column names of a frame in order.\<close>

definition indicator_names :: "string list" where
  "indicator_names = [''SMA_10'', ''SMA_30'', ''SMA_60'', ''Volatility'', ''RSI'', ''MACD'',
                      ''Signal'', ''Histogram'', ''BB_Middle'', ''BB_Upper'', ''BB_Lower'']"

definition price_names :: "string list" where
  "price_names = [''Open'', ''High'', ''Low'', ''Close'', ''Volume'']"

definition column_names :: "dataframe \<Rightarrow> string list" where
  "column_names df = map fst (df_columns df)"

text \<open>Concrete inputs: a frame whose five price columns are given by one Series of
  closes, a rising and a constant run of fifteen closes, and an analyzer whose frame is
  the first object of the heap.\<close>

definition ohlcv :: "nat list \<Rightarrow> series \<Rightarrow> dataframe" where
  "ohlcv idx close =
     \<lparr>df_index = idx,
      df_columns = [(''Open'', close), (''High'', close), (''Low'', close), (''Close'', close),
                    (''Volume'', map (\<lambda>_. Fin 1000) close)]\<rparr>"

definition rising :: "real list" where
  "rising = [1, 2, 3, 4, 5, 6, 7, 8, 9, 10, 11, 12, 13, 14, 15]"

definition flat :: "real list" where
  "flat = [7, 7, 7, 7, 7, 7, 7, 7, 7, 7, 7, 7, 7, 7, 7]"

definition analyzer0 :: stock_analyzer where
  "analyzer0 = \<lparr>sa_ticker = ''AAPL'', sa_period = ''1mo'', sa_data = Some 0\<rparr>"

definition new_analyzer :: stock_analyzer where
  "new_analyzer = \<lparr>sa_ticker = ''AAPL'', sa_period = ''1d'', sa_data = None\<rparr>"

text \<open>
  \<open>latest df name\<close> is the source's \<^verbatim>\<open>df[name].iloc[-1]\<close>: the value of a column in
  the last row.

  The trend rule in the words of the specification: an ordered decision table of
  (condition, label) pairs, the first pair whose condition holds giving the label, and
  "sideways" when none holds. A condition \<open>a > b > c\<close> reads \<open>a > b\<close> and \<open>b > c\<close>.
\<close>

definition latest :: "dataframe \<Rightarrow> string \<Rightarrow> error + float64" where
  "latest df name = bindE (getitem df name) (\<lambda>col. iloc col (- 1))"

fun first_match :: "(bool \<times> 'a) list \<Rightarrow> 'a \<Rightarrow> 'a" where
  "first_match [] other = other"
| "first_match ((holds, label) # rules) other = (if holds then label else first_match rules other)"

definition spec_trend :: "float64 \<Rightarrow> float64 \<Rightarrow> float64 \<Rightarrow> trend_label" where
  "spec_trend close s10 s30 =
     first_match
       [(fgt close s10 \<and> fgt s10 s30, StrongBullish),
        (fgt close s10, ModeratelyBullish),
        (flt close s10 \<and> flt s10 s30, StrongBearish),
        (flt close s10, ModeratelyBearish)]
       Sideways"

text \<open>A table of one row with given last values of Close, SMA\_10 and SMA\_30, and with
  MACD and Signal both 0.5.\<close>

definition table1 :: "float64 \<Rightarrow> float64 \<Rightarrow> float64 \<Rightarrow> dataframe" where
  "table1 c s10 s30 =
     \<lparr>df_index = [0],
      df_columns = [(''Open'', [c]), (''High'', [c]), (''Low'', [c]), (''Close'', [c]),
                    (''Volume'', [Fin 1000]), (''SMA_10'', [s10]), (''SMA_30'', [s30]),
                    (''Volatility'', [Fin 2]), (''RSI'', [Fin 55]), (''MACD'', [Fin (1/2)]),
                    (''Signal'', [Fin (1/2)])]\<rparr>"

text \<open>Data sources: one that returns a single bar closing at 100 for every ticker, one
  that returns a frame without rows, and one that has a bar for AAPL, an empty frame for
  EMPTY and raises for every other ticker.\<close>

definition one_bar_source :: history where
  "one_bar_source ticker period = Inr (ohlcv [0] [Fin 100])"

definition empty_source :: history where
  "empty_source ticker period = Inr (ohlcv [] [])"

definition mixed_source :: history where
  "mixed_source ticker period =
     (if ticker = ''AAPL'' then Inr (ohlcv [0] [Fin 100])
      else if ticker = ''EMPTY'' then Inr (ohlcv [] [])
      else Inl FetchError)"

text \<open>Whether the fetch of a ticker returns a frame that is not empty.\<close>

definition has_data :: "history \<Rightarrow> string \<Rightarrow> string \<Rightarrow> bool" where
  "has_data yf period ticker =
     (case yf ticker period of Inl e \<Rightarrow> False | Inr data \<Rightarrow> \<not> df_empty data)"

text \<open>
  The columns that \<open>analyze_trend\<close> and the single-symbol page read. \<open>has_rows df names\<close>
  says that the frame has at least one row and that each named column is there with one
  value for every row, as in any DataFrame. \<open>macd_table m s\<close> is a table of one row
  whose MACD is \<open>m\<close> and whose Signal is \<open>s\<close>.
\<close>

definition analysis_columns :: "string list" where
  "analysis_columns = [''Close'', ''SMA_10'', ''SMA_30'', ''RSI'', ''MACD'', ''Signal'',
                       ''Volatility'', ''High'', ''Low'', ''Volume'']"

definition has_rows :: "dataframe \<Rightarrow> string list \<Rightarrow> bool" where
  "has_rows df names =
     (0 < length (df_index df) \<and>
      list_all (\<lambda>name. case getitem df name of
                          Inl e \<Rightarrow> False
                        | Inr col \<Rightarrow> length col = length (df_index df)) names)"

definition macd_table :: "float64 \<Rightarrow> float64 \<Rightarrow> dataframe" where
  "macd_table m s =
     \<lparr>df_index = [0],
      df_columns = [(''Open'', [Fin 100]), (''High'', [Fin 100]), (''Low'', [Fin 100]),
                    (''Close'', [Fin 100]), (''Volume'', [Fin 1000]), (''SMA_10'', [Fin 100]),
                    (''SMA_30'', [Fin 100]), (''Volatility'', [Fin 2]), (''RSI'', [Fin 55]),
                    (''MACD'', [m]), (''Signal'', [s])]\<rparr>"

text \<open>Sixteen closes with gains and losses, and the frame that holds nothing but a Close
  column.\<close>

definition bars16 :: "real list" where
  "bars16 = [10, 11, 12, 13, 12, 13, 14, 15, 14, 15, 16, 17, 16, 16, 19, 18]"


section \<open>Frames and the two indicator functions\<close>

lemma getitem_setitem:
  "getitem (setitem df n c) m = (if m = n then Inr c else getitem df m)"
  by (simp add: getitem_def setitem_def update_conv')

lemma df_index_setitem: "df_index (setitem df n c) = df_index df"
  by (simp add: setitem_def)

lemma calc_ti_char:
  assumes "sa_data self = Some r" "r < length h" "getitem (h ! r) ''Close'' = Inr close"
  shows "calculate_technical_indicators self h =
           (Inr (), h[r := setitem (with_indicators close (h ! r)) ''Daily_Return''
                              (s_mul_c (pct_change close) (Fin 100))])"
  using assms
  by (simp add: calculate_technical_indicators_def and_then_def self_get_def self_set_def
      get_column_def set_column_def getitem_setitem with_indicators_def rsi_series_def
      macd_series_def Let_def)

lemma calc_ind_char:
  assumes "data < length h" "getitem (h ! data) ''Close'' = Inr close"
  shows "calculate_indicators data h =
           (Inr (length h), h @ [with_indicators close (h ! data)])"
  using assms
  by (simp add: calculate_indicators_def and_then_def copy_def ret_def
      get_column_def set_column_def getitem_setitem with_indicators_def rsi_series_def
      macd_series_def Let_def nth_append)

section \<open>Rows of the RSI\<close>

lemma length_s_diff [simp]: "length (s_diff xs) = length xs"
  by (cases xs) (simp_all add: s_diff_def)

lemma s_diff_nth:
  assumes "0 < j" "j < length xs"
  shows "s_diff xs ! j = fsub (xs ! j) (xs ! (j - 1))"
proof (cases xs)
  case Nil
  with assms show ?thesis by simp
next
  case (Cons x rest)
  obtain m where m: "j = Suc m" using assms(1) by (cases j) auto
  with assms Cons have "m < length rest" by simp
  with Cons m show ?thesis
    by (simp add: s_diff_def nth_Cons')
qed

lemma s_diff_0: "xs \<noteq> [] \<Longrightarrow> s_diff xs ! 0 = NaN"
  by (cases xs) (simp_all add: s_diff_def)

lemma length_up_moves [simp]: "length (up_moves xs) = length xs"
  by (simp add: up_moves_def s_where_def s_gt_def)

lemma length_down_moves [simp]: "length (down_moves xs) = length xs"
  by (simp add: down_moves_def s_where_def s_lt_def s_neg_def)

lemma up_moves_nth:
  assumes "j < length xs"
  shows "up_moves xs ! j = (if fgt (s_diff xs ! j) (Fin 0) then s_diff xs ! j else Fin 0)"
  using assms by (simp add: up_moves_def s_where_def s_gt_def)

lemma down_moves_nth:
  assumes "j < length xs"
  shows "down_moves xs ! j = fneg (if flt (s_diff xs ! j) (Fin 0) then s_diff xs ! j else Fin 0)"
  using assms by (simp add: down_moves_def s_where_def s_lt_def s_neg_def)

lemma up_moves_fin:
  assumes "0 < j" "j < length cs"
  shows "up_moves (map Fin cs) ! j = Fin (max (cs ! j - cs ! (j - 1)) 0)"
  using assms by (simp add: up_moves_nth s_diff_nth fsub_def max_def)

lemma down_moves_fin:
  assumes "0 < j" "j < length cs"
  shows "down_moves (map Fin cs) ! j = Fin (max (cs ! (j - 1) - cs ! j) 0)"
  using assms by (simp add: down_moves_nth s_diff_nth fsub_def flt_def max_def)

lemma rolling_mean_nth:
  "i < length xs \<Longrightarrow> rolling_mean k xs ! i = window_mean k (window k xs i)"
  by (simp add: rolling_mean_def)

lemma length_rolling_mean [simp]: "length (rolling_mean k xs) = length xs"
  by (simp add: rolling_mean_def)

lemma window_eq_map:
  assumes "k \<le> Suc i" "i < length xs"
  shows "window k xs i = map (\<lambda>t. xs ! (Suc i - k + t)) [0..<k]"
proof (rule nth_equalityI)
  show "length (window k xs i) = length (map (\<lambda>t. xs ! (Suc i - k + t)) [0..<k])"
    using assms by (simp add: window_def)
next
  fix t assume "t < length (window k xs i)"
  with assms have t: "t < k" by (simp add: window_def)
  with assms show "window k xs i ! t = map (\<lambda>t. xs ! (Suc i - k + t)) [0..<k] ! t"
    by (simp add: window_def)
qed

lemma window_mean_fin:
  "window_mean k (map Fin rs) =
     (if k \<le> length rs \<and> 0 < length rs then Fin (sum_list rs / real (length rs)) else NaN)"
proof -
  have "filter is_fin (map Fin rs) = map Fin rs" by (induction rs) auto
  moreover have "map the_fin (map Fin rs) = rs" by (induction rs) auto
  ultimately show ?thesis by (simp add: window_mean_def)
qed

lemma rsi_series_nth:
  assumes "i < length close"
  shows "rsi_series close ! i =
           fsub (Fin 100) (fdiv (Fin 100) (fadd (Fin 1)
             (fdiv (window_mean 14 (window 14 (up_moves close) i))
                   (window_mean 14 (window 14 (down_moves close) i)))))"
  using assms
  by (simp add: rsi_series_def Let_def c_sub_def c_div_def c_add_def s_div_def
      rolling_mean_nth up_moves_def[symmetric] down_moves_def[symmetric])

lemma length_rsi_series [simp]: "length (rsi_series close) = length close"
  by (simp add: rsi_series_def Let_def c_sub_def c_div_def c_add_def s_div_def
      up_moves_def[symmetric] down_moves_def[symmetric])

lemma window_up_fin:
  assumes "14 \<le> i" "i < length cs"
  shows "window 14 (up_moves (map Fin cs)) i =
           map Fin (map (\<lambda>t. max (cs ! (i - 13 + t) - cs ! (i - 13 + t - 1)) 0) [0..<14])"
proof -
  have "window 14 (up_moves (map Fin cs)) i = map (\<lambda>t. up_moves (map Fin cs) ! (Suc i - 14 + t)) [0..<14]"
    using assms by (intro window_eq_map) simp_all
  also have "\<dots> = map (\<lambda>t. Fin (max (cs ! (i - 13 + t) - cs ! (i - 13 + t - 1)) 0)) [0..<14]"
  proof (rule map_cong[OF refl])
    fix t assume "t \<in> set [0..<14]"
    then have "t < 14" by simp
    with assms have "0 < i - 13 + t" "i - 13 + t < length cs" "Suc i - 14 + t = i - 13 + t" by simp_all
    then show "up_moves (map Fin cs) ! (Suc i - 14 + t) = Fin (max (cs ! (i - 13 + t) - cs ! (i - 13 + t - 1)) 0)"
      by (simp add: up_moves_fin)
  qed
  finally show ?thesis by (simp add: comp_def)
qed

lemma window_down_fin:
  assumes "14 \<le> i" "i < length cs"
  shows "window 14 (down_moves (map Fin cs)) i =
           map Fin (map (\<lambda>t. max (cs ! (i - 13 + t - 1) - cs ! (i - 13 + t)) 0) [0..<14])"
proof -
  have "window 14 (down_moves (map Fin cs)) i = map (\<lambda>t. down_moves (map Fin cs) ! (Suc i - 14 + t)) [0..<14]"
    using assms by (intro window_eq_map) simp_all
  also have "\<dots> = map (\<lambda>t. Fin (max (cs ! (i - 13 + t - 1) - cs ! (i - 13 + t)) 0)) [0..<14]"
  proof (rule map_cong[OF refl])
    fix t assume "t \<in> set [0..<14]"
    then have "t < 14" by simp
    with assms have "0 < i - 13 + t" "i - 13 + t < length cs" "Suc i - 14 + t = i - 13 + t" by simp_all
    then show "down_moves (map Fin cs) ! (Suc i - 14 + t) = Fin (max (cs ! (i - 13 + t - 1) - cs ! (i - 13 + t)) 0)"
      by (simp add: down_moves_fin)
  qed
  finally show ?thesis by (simp add: comp_def)
qed

lemma rsi_fin_row:
  assumes "14 \<le> i" "i < length cs"
  shows "rsi_series (map Fin cs) ! i =
           fsub (Fin 100) (fdiv (Fin 100) (fadd (Fin 1) (fdiv (Fin (avg_gain cs i)) (Fin (avg_loss cs i)))))"
  using assms
  by (simp add: rsi_series_nth window_up_fin window_down_fin window_mean_fin avg_gain_def avg_loss_def
       del: upt_Suc map_map)

lemma avg_gain_nonneg: "0 \<le> avg_gain cs i"
  unfolding avg_gain_def by (intro divide_nonneg_nonneg sum_list_nonneg) auto

lemma avg_loss_nonneg: "0 \<le> avg_loss cs i"
  unfolding avg_loss_def by (intro divide_nonneg_nonneg sum_list_nonneg) auto

lemma sum_list_nonneg_eq_0:
  fixes xs :: "real list"
  assumes "\<And>x. x \<in> set xs \<Longrightarrow> 0 \<le> x"
  shows "sum_list xs = 0 \<longleftrightarrow> (\<forall>x \<in> set xs. x = 0)"
  using assms by (simp add: sum_list_nonneg_eq_0_iff)

lemma avg_gain_zero_iff:
  "avg_gain cs i = 0 \<longleftrightarrow> (\<forall>t < 14. cs ! (i - 13 + t) \<le> cs ! (i - 13 + t - 1))"
proof -
  have "avg_gain cs i = 0 \<longleftrightarrow>
        (\<forall>x \<in> set (map (\<lambda>t. max (cs ! (i - 13 + t) - cs ! (i - 13 + t - 1)) 0) [0..<14]). x = 0)"
    unfolding avg_gain_def by (subst sum_list_nonneg_eq_0[symmetric]) auto
  also have "\<dots> \<longleftrightarrow> (\<forall>t < 14. max (cs ! (i - 13 + t) - cs ! (i - 13 + t - 1)) 0 = 0)"
    by (simp only: set_map set_upt ball_simps atLeast0LessThan lessThan_iff Ball_def image_iff Bex_def) blast
  also have "\<dots> \<longleftrightarrow> (\<forall>t < 14. cs ! (i - 13 + t) \<le> cs ! (i - 13 + t - 1))"
    by (auto simp add: max_def)
  finally show ?thesis .
qed

lemma rsi_zero_loss_row:
  assumes "14 \<le> i" "i < length cs" "avg_loss cs i = 0"
  shows "rsi_series (map Fin cs) ! i = (if 0 < avg_gain cs i then Fin 100 else NaN)"
  using assms avg_gain_nonneg[of cs i]
  by (auto simp add: rsi_fin_row fsub_def)

lemma avg_loss_zero_iff:
  "avg_loss cs i = 0 \<longleftrightarrow> (\<forall>t < 14. cs ! (i - 13 + t - 1) \<le> cs ! (i - 13 + t))"
proof -
  have "avg_loss cs i = 0 \<longleftrightarrow>
        (\<forall>x \<in> set (map (\<lambda>t. max (cs ! (i - 13 + t - 1) - cs ! (i - 13 + t)) 0) [0..<14]). x = 0)"
    unfolding avg_loss_def by (subst sum_list_nonneg_eq_0[symmetric]) auto
  also have "\<dots> \<longleftrightarrow> (\<forall>t < 14. max (cs ! (i - 13 + t - 1) - cs ! (i - 13 + t)) 0 = 0)"
    by (simp only: set_map set_upt ball_simps atLeast0LessThan lessThan_iff Ball_def image_iff Bex_def) blast
  also have "\<dots> \<longleftrightarrow> (\<forall>t < 14. cs ! (i - 13 + t - 1) \<le> cs ! (i - 13 + t))"
    by (auto simp add: max_def)
  finally show ?thesis .
qed

lemma window_rows:
  assumes "14 \<le> i"
  shows "(\<forall>t < 14. P (i - 13 + t)) \<longleftrightarrow> (\<forall>j. i - 13 \<le> j \<and> j < Suc i \<longrightarrow> P j)"
proof
  assume a: "\<forall>t < 14. P (i - 13 + t)"
  show "\<forall>j. i - 13 \<le> j \<and> j < Suc i \<longrightarrow> P j"
  proof (intro allI impI)
    fix j assume j: "i - 13 \<le> j \<and> j < Suc i"
    with assms have "j - (i - 13) < 14" "i - 13 + (j - (i - 13)) = j" by auto
    with a show "P j" by metis
  qed
next
  assume a: "\<forall>j. i - 13 \<le> j \<and> j < Suc i \<longrightarrow> P j"
  show "\<forall>t < 14. P (i - 13 + t)"
  proof (intro allI impI)
    fix t :: nat assume "t < 14"
    with assms have "i - 13 \<le> i - 13 + t \<and> i - 13 + t < Suc i" by linarith
    with a show "P (i - 13 + t)" by blast
  qed
qed

lemma avg_loss_no_loss:
  assumes "14 \<le> i"
  shows "avg_loss cs i = 0 \<longleftrightarrow> no_loss cs i"
proof -
  have "no_loss cs i \<longleftrightarrow> (\<forall>j. i - 13 \<le> j \<and> j < Suc i \<longrightarrow> cs ! (j - 1) \<le> cs ! j)"
    by (simp only: no_loss_def list_all_iff set_upt Ball_def atLeastLessThan_iff)
  then show ?thesis
    unfolding avg_loss_zero_iff
    using window_rows[OF assms, of "\<lambda>j. cs ! (j - 1) \<le> cs ! j"] by simp
qed

lemma avg_gain_some_gain:
  assumes "14 \<le> i"
  shows "0 < avg_gain cs i \<longleftrightarrow> some_gain cs i"
proof -
  have "0 < avg_gain cs i \<longleftrightarrow> \<not> (\<forall>t < 14. cs ! (i - 13 + t) \<le> cs ! (i - 13 + t - 1))"
  proof -
    have "0 < avg_gain cs i \<longleftrightarrow> avg_gain cs i \<noteq> 0"
      using avg_gain_nonneg[of cs i] by auto
    then show ?thesis by (simp only: avg_gain_zero_iff)
  qed
  also have "\<dots> \<longleftrightarrow> \<not> (\<forall>j. i - 13 \<le> j \<and> j < Suc i \<longrightarrow> cs ! j \<le> cs ! (j - 1))"
    using window_rows[OF assms, of "\<lambda>j. cs ! j \<le> cs ! (j - 1)"] by simp
  also have "\<dots> \<longleftrightarrow> some_gain cs i"
    by (simp only: some_gain_def list_ex_iff set_upt Bex_def atLeastLessThan_iff not_all not_imp not_le)
  finally show ?thesis .
qed

lemma rsi_no_loss_row:
  assumes "14 \<le> i" "i < length cs" "no_loss cs i"
  shows "rsi_series (map Fin cs) ! i = (if some_gain cs i then Fin 100 else NaN)"
  using assms rsi_zero_loss_row[of i cs] avg_loss_no_loss[of i cs] avg_gain_some_gain[of i cs]
  by simp

lemma getitem_with_indicators_RSI:
  "getitem (with_indicators close df) ''RSI'' = Inr (rsi_series close)"
  by (simp add: with_indicators_def getitem_setitem Let_def)

text \<open>
  Claim C1, as amended. Take a Close column of finite prices and a row \<open>i\<close> with
  fourteen close-to-close changes behind it, none of them a loss (so the trailing
  average loss is 0). Both \<open>calculate_technical_indicators\<close> and
  \<open>calculate_indicators\<close> return without an exception, and the RSI they store at row
  \<open>i\<close> is exactly 100 when one of the fourteen changes is a gain, and NaN when
  none is (a constant close): \<open>0/0\<close> is NaN and nothing replaces it.
\<close>

theorem rsi_zero_average_loss:
  assumes "sa_data self = Some r" and "r < length h"
    and "getitem (h ! r) ''Close'' = Inr (map Fin cs)"
    and "14 \<le> i" and "i < length cs" and "no_loss cs i"
  shows "(\<exists>h' col. calculate_technical_indicators self h = (Inr (), h')
            \<and> getitem (h' ! r) ''RSI'' = Inr col
            \<and> col ! i = (if some_gain cs i then Fin 100 else NaN))
       \<and> (\<exists>df h' col. calculate_indicators r h = (Inr df, h')
            \<and> getitem (h' ! df) ''RSI'' = Inr col
            \<and> col ! i = (if some_gain cs i then Fin 100 else NaN))"
proof -
  have row: "rsi_series (map Fin cs) ! i = (if some_gain cs i then Fin 100 else NaN)"
    using assms(4-6) by (rule rsi_no_loss_row)
  have "calculate_technical_indicators self h =
          (Inr (), h[r := setitem (with_indicators (map Fin cs) (h ! r)) ''Daily_Return''
                              (s_mul_c (pct_change (map Fin cs)) (Fin 100))])"
    using assms(1-3) by (rule calc_ti_char)
  moreover have "getitem (h[r := setitem (with_indicators (map Fin cs) (h ! r)) ''Daily_Return''
                              (s_mul_c (pct_change (map Fin cs)) (Fin 100))] ! r) ''RSI''
                  = Inr (rsi_series (map Fin cs))"
    using assms(2) by (simp add: getitem_setitem getitem_with_indicators_RSI)
  moreover have "calculate_indicators r h =
          (Inr (length h), h @ [with_indicators (map Fin cs) (h ! r)])"
    using assms(2,3) by (rule calc_ind_char)
  moreover have "getitem ((h @ [with_indicators (map Fin cs) (h ! r)]) ! length h) ''RSI''
                  = Inr (rsi_series (map Fin cs))"
    by (simp add: getitem_with_indicators_RSI)
  ultimately show ?thesis using row by blast
qed

text \<open>The theorem at fifteen rising closes, row 14: the RSI is 100.\<close>

theorem rsi_zero_average_loss_witness:
  "sa_data analyzer0 = Some 0 \<and> 0 < length [ohlcv [1..<16] (map Fin rising)]
   \<and> getitem ([ohlcv [1..<16] (map Fin rising)] ! 0) ''Close'' = Inr (map Fin rising)
   \<and> (14::nat) \<le> 14 \<and> 14 < length rising \<and> no_loss rising 14 \<and> some_gain rising 14
   \<and> (\<exists>h' col. calculate_technical_indicators analyzer0 [ohlcv [1..<16] (map Fin rising)] = (Inr (), h')
            \<and> getitem (h' ! 0) ''RSI'' = Inr col \<and> col ! 14 = Fin 100)
   \<and> (\<exists>df h' col. calculate_indicators 0 [ohlcv [1..<16] (map Fin rising)] = (Inr df, h')
            \<and> getitem (h' ! df) ''RSI'' = Inr col \<and> col ! 14 = Fin 100)"
proof -
  have 1: "sa_data analyzer0 = Some 0" by (simp add: analyzer0_def)
  have 2: "0 < length [ohlcv [1..<16] (map Fin rising)]" by simp
  have 3: "getitem ([ohlcv [1..<16] (map Fin rising)] ! 0) ''Close'' = Inr (map Fin rising)"
    by (simp add: getitem_def ohlcv_def)
  have 4: "(14::nat) \<le> 14" by simp
  have 5: "14 < length rising" by (simp add: rising_def)
  have 6: "no_loss rising 14" by (simp add: no_loss_def rising_def upt_rec)
  have 7: "some_gain rising 14" by (simp add: some_gain_def rising_def upt_rec)
  show ?thesis
    using rsi_zero_average_loss[OF 1 2 3 4 5 6] 1 2 3 5 6 7 by simp
qed

text \<open>Claim C1 as stated fails on a constant close: for fifteen bars closing at 7 the
  RSI column holds NaN in every row, row 14 included, where the claim wants 100.\<close>

theorem rsi_constant_close_counterexample:
  "getitem (snd (calculate_technical_indicators analyzer0 [ohlcv [1..<16] (map Fin flat)]) ! 0) ''RSI''
     = Inr (replicate 15 NaN)"
proof -
  have 1: "sa_data analyzer0 = Some 0" by (simp add: analyzer0_def)
  have 2: "0 < length [ohlcv [1..<16] (map Fin flat)]" by simp
  have 3: "getitem ([ohlcv [1..<16] (map Fin flat)] ! 0) ''Close'' = Inr (map Fin flat)"
    by (simp add: getitem_def ohlcv_def)
  have "rsi_series (map Fin flat) = replicate 15 NaN"
    by code_simp
  then show ?thesis
    by (subst calc_ti_char[OF 1 2 3]) (simp add: getitem_setitem getitem_with_indicators_RSI)
qed

section \<open>Effect of the indicator functions on the frames\<close>


lemma set_column_names_setitem:
  "set (column_names (setitem df n c)) = insert n (set (column_names df))"
  using dom_update[of n c "df_columns df"] by (simp add: column_names_def setitem_def)

lemma getitem_with_indicators:
  "map (getitem (with_indicators close df)) indicator_names =
     [Inr (rolling_mean 10 close), Inr (rolling_mean 30 close), Inr (rolling_mean 60 close),
      Inr (rolling_std 20 close), Inr (rsi_series close), Inr (macd_series close),
      Inr (ewm_mean 9 (macd_series close)),
      Inr (s_sub (macd_series close) (ewm_mean 9 (macd_series close))),
      Inr (rolling_mean 20 close),
      Inr (s_add (rolling_mean 20 close) (s_mul_c (rolling_std 20 close) (Fin 2))),
      Inr (s_sub (rolling_mean 20 close) (s_mul_c (rolling_std 20 close) (Fin 2)))]"
  by (simp add: indicator_names_def with_indicators_def getitem_setitem Let_def)

lemma getitem_with_indicators_other:
  "name \<notin> set indicator_names \<Longrightarrow> getitem (with_indicators close df) name = getitem df name"
  by (simp add: indicator_names_def with_indicators_def getitem_setitem Let_def)

lemma df_index_with_indicators: "df_index (with_indicators close df) = df_index df"
  by (simp add: with_indicators_def df_index_setitem Let_def)

lemma column_names_with_indicators:
  "set (column_names (with_indicators close df)) = set (column_names df) \<union> set indicator_names"
  by (simp add: with_indicators_def Let_def set_column_names_setitem indicator_names_def
      insert_commute)

lemma calc_ti_no_close:
  assumes "sa_data self = Some r" "r < length h" "getitem (h ! r) ''Close'' = Inl e"
  shows "calculate_technical_indicators self h = (Inl e, h)"
  using assms
  by (simp add: calculate_technical_indicators_def and_then_def self_get_def get_column_def)

lemma calc_ind_no_close:
  assumes "data < length h" "getitem (h ! data) ''Close'' = Inl e"
  shows "calculate_indicators data h = (Inl e, h @ [h ! data])"
  using assms
  by (simp add: calculate_indicators_def and_then_def copy_def get_column_def nth_append)

text \<open>Whatever it returns, \<open>calculate_indicators\<close> leaves every object that was in
  the heap as it was.\<close>

lemma calculate_indicators_keeps_heap:
  "take (length h) (snd (calculate_indicators data h)) = h"
proof (cases "data < length h")
  case True
  show ?thesis
  proof (cases "getitem (h ! data) ''Close''")
    case (Inl e)
    with True show ?thesis by (simp add: calc_ind_no_close)
  next
    case (Inr close)
    with True show ?thesis by (simp add: calc_ind_char)
  qed
next
  case False
  then show ?thesis by (simp add: calculate_indicators_def and_then_def copy_def)
qed



lemma cs_rsi_char: "getitem df ''Close'' = Inr close \<Longrightarrow> cs_rsi df = Inr (rsi_series close)"
  by (simp add: cs_rsi_def bindE_def rsi_series_def Let_def)

lemma cc_rsi_eq: "cc_rsi = cs_rsi"
  by (rule ext) (simp add: cc_rsi_def cs_rsi_def Let_def)

text \<open>
  Claim C3, as amended. For a frame with a Close column, \<open>calculate_indicators\<close> of
  app.py leaves every object of the heap as it was, the frame it is given included, and
  returns a new object. \<open>StockAnalyzer.calculate_technical_indicators\<close> writes into
  the analyzer's own frame \<open>self.data\<close>: the index and the Open, High, Low, Close and
  Volume columns keep their values, and the eleven indicator columns and Daily\_Return
  are added to the columns of that same object.
\<close>

theorem indicators_frame_effect:
  assumes "r < length h" and "getitem (h ! r) ''Close'' = Inr close" and "sa_data self = Some r"
  shows "(\<exists>t. calculate_indicators r h = (Inr (length h), h @ [t]))
       \<and> (\<exists>t. calculate_technical_indicators self h = (Inr (), h[r := t])
              \<and> df_index t = df_index (h ! r)
              \<and> map (getitem t) price_names = map (getitem (h ! r)) price_names
              \<and> set (column_names t)
                  = set (column_names (h ! r)) \<union> set indicator_names \<union> {''Daily_Return''})"
proof -
  let ?t = "setitem (with_indicators close (h ! r)) ''Daily_Return''
              (s_mul_c (pct_change close) (Fin 100))"
  have "calculate_indicators r h = (Inr (length h), h @ [with_indicators close (h ! r)])"
    using assms(1,2) by (rule calc_ind_char)
  moreover have "calculate_technical_indicators self h = (Inr (), h[r := ?t])"
    using assms(3,1,2) by (rule calc_ti_char)
  moreover have "df_index ?t = df_index (h ! r)"
    by (simp add: df_index_setitem df_index_with_indicators)
  moreover have "map (getitem ?t) price_names = map (getitem (h ! r)) price_names"
    by (simp add: price_names_def getitem_setitem getitem_with_indicators_other indicator_names_def)
  moreover have "set (column_names ?t)
                  = set (column_names (h ! r)) \<union> set indicator_names \<union> {''Daily_Return''}"
    by (simp add: set_column_names_setitem column_names_with_indicators)
  ultimately show ?thesis by blast
qed

text \<open>The theorem at a frame of one bar closing at 100.\<close>

theorem indicators_frame_effect_witness:
  "0 < length [ohlcv [0] [Fin 100]]
   \<and> getitem ([ohlcv [0] [Fin 100]] ! 0) ''Close'' = Inr [Fin 100]
   \<and> sa_data analyzer0 = Some 0
   \<and> (\<exists>t. calculate_indicators 0 [ohlcv [0] [Fin 100]]
             = (Inr (length [ohlcv [0] [Fin 100]]), [ohlcv [0] [Fin 100]] @ [t]))
   \<and> (\<exists>t. calculate_technical_indicators analyzer0 [ohlcv [0] [Fin 100]]
             = (Inr (), [ohlcv [0] [Fin 100]][0 := t])
          \<and> df_index t = df_index ([ohlcv [0] [Fin 100]] ! 0)
          \<and> map (getitem t) price_names = map (getitem ([ohlcv [0] [Fin 100]] ! 0)) price_names
          \<and> set (column_names t)
              = set (column_names ([ohlcv [0] [Fin 100]] ! 0)) \<union> set indicator_names
                \<union> {''Daily_Return''})"
proof -
  have 1: "0 < length [ohlcv [0] [Fin 100]]" by simp
  have 2: "getitem ([ohlcv [0] [Fin 100]] ! 0) ''Close'' = Inr [Fin 100]"
    by (simp add: getitem_def ohlcv_def)
  have 3: "sa_data analyzer0 = Some 0" by (simp add: analyzer0_def)
  from indicators_frame_effect[OF 1 2 3] 1 2 3 show ?thesis by blast
qed

text \<open>Claim C3 as stated fails for \<open>StockAnalyzer\<close>: after the computation the frame
  that held the five price columns holds seventeen columns.\<close>

theorem analyzer_adds_columns_counterexample:
  "column_names (snd (calculate_technical_indicators analyzer0 [ohlcv [0] [Fin 100]]) ! 0)
     = [''Open'', ''High'', ''Low'', ''Close'', ''Volume'', ''SMA_10'', ''SMA_30'', ''SMA_60'',
        ''Volatility'', ''RSI'', ''MACD'', ''Signal'', ''Histogram'', ''BB_Middle'',
        ''BB_Upper'', ''BB_Lower'', ''Daily_Return'']"
proof -
  have 1: "0 < length [ohlcv [0] [Fin 100]]" by simp
  have 2: "getitem ([ohlcv [0] [Fin 100]] ! 0) ''Close'' = Inr [Fin 100]"
    by (simp add: getitem_def ohlcv_def)
  have 3: "sa_data analyzer0 = Some 0" by (simp add: analyzer0_def)
  show ?thesis
    by (subst calc_ti_char[OF 3 1 2])
       (simp add: column_names_def setitem_def with_indicators_def ohlcv_def Let_def)
qed


text \<open>
  Claim C10. For a frame with a Close column, the RSI column stored by
  \<open>calculate_technical_indicators\<close>, the RSI line of \<open>compare_stocks\<close>, the RSI
  column stored by \<open>calculate_indicators\<close> and the RSI line of
  \<open>create_comparison_chart\<close> are the same Series, row for row; and the RSI panels of
  the two comparison charts agree on every \<open>all_data\<close>.
\<close>

theorem rsi_sites_agree:
  assumes "r < length h" and "getitem (h ! r) ''Close'' = Inr close" and "sa_data self = Some r"
  shows "getitem (snd (calculate_technical_indicators self h) ! r) ''RSI'' = Inr (rsi_series close)
       \<and> cs_rsi (h ! r) = Inr (rsi_series close)
       \<and> getitem (snd (calculate_indicators r h) ! length h) ''RSI'' = Inr (rsi_series close)
       \<and> cc_rsi (h ! r) = Inr (rsi_series close)
       \<and> panel cc_rsi all_data = panel cs_rsi all_data"
  using assms
  by (simp add: calc_ti_char[OF assms(3,1,2)] calc_ind_char[OF assms(1,2)] getitem_setitem
      getitem_with_indicators_RSI cs_rsi_char cc_rsi_eq)

text \<open>The indicators of the sixteen closes: SMA\_10 is defined from row 9, the RSI from
  row 13, and the moving averages of the MACD from the first row.\<close>

lemma rsi_bars16:
  "rsi_series (map Fin bars16) =
     [NaN, NaN, NaN, NaN, NaN, NaN, NaN, NaN, NaN, NaN, NaN, NaN, NaN, Fin 75, Fin 80,
      Fin (220 / 3)]"
  by code_simp









lemma getitem_ohlcv_Close: "getitem ([ohlcv idx close] ! 0) ''Close'' = Inr close"
  by (simp add: getitem_def ohlcv_def)




text \<open>The four RSI computations at the frame of sixteen bars: each gives 75, 80 and
  220/3 in the last three rows.\<close>

theorem rsi_sites_agree_witness:
  "0 < length [ohlcv [0..<16] (map Fin bars16)]
   \<and> getitem ([ohlcv [0..<16] (map Fin bars16)] ! 0) ''Close'' = Inr (map Fin bars16)
   \<and> sa_data analyzer0 = Some 0
   \<and> getitem (snd (calculate_technical_indicators analyzer0 [ohlcv [0..<16] (map Fin bars16)]) ! 0)
        ''RSI''
        = Inr [NaN, NaN, NaN, NaN, NaN, NaN, NaN, NaN, NaN, NaN, NaN, NaN, NaN,
               Fin 75, Fin 80, Fin (220 / 3)]
   \<and> cs_rsi (ohlcv [0..<16] (map Fin bars16))
        = Inr [NaN, NaN, NaN, NaN, NaN, NaN, NaN, NaN, NaN, NaN, NaN, NaN, NaN,
               Fin 75, Fin 80, Fin (220 / 3)]
   \<and> getitem (snd (calculate_indicators 0 [ohlcv [0..<16] (map Fin bars16)]) ! 1) ''RSI''
        = Inr [NaN, NaN, NaN, NaN, NaN, NaN, NaN, NaN, NaN, NaN, NaN, NaN, NaN,
               Fin 75, Fin 80, Fin (220 / 3)]
   \<and> cc_rsi (ohlcv [0..<16] (map Fin bars16))
        = Inr [NaN, NaN, NaN, NaN, NaN, NaN, NaN, NaN, NaN, NaN, NaN, NaN, NaN,
               Fin 75, Fin 80, Fin (220 / 3)]
   \<and> panel cc_rsi [(''AAPL'', ohlcv [0..<16] (map Fin bars16))]
        = panel cs_rsi [(''AAPL'', ohlcv [0..<16] (map Fin bars16))]"
proof -
  let ?c = "map Fin bars16"
  let ?F = "ohlcv [0..<16] ?c"
  have 1: "0 < length [?F]" by simp
  have 2: "getitem ([?F] ! 0) ''Close'' = Inr ?c" by (rule getitem_ohlcv_Close)
  have 3: "sa_data analyzer0 = Some 0" by (simp add: analyzer0_def)
  note a = rsi_sites_agree[OF 1 2 3, of "[(''AAPL'', ?F)]", unfolded rsi_bars16]
  have n: "[?F] ! 0 = ?F" "length [?F] = 1" by simp_all
  note b = a[unfolded n]
  from 1 2 3 b show ?thesis by (simp only: simp_thms)
qed

section \<open>The trend analysis\<close>

section \<open>The trend analysis\<close>

lemma and_then_Inr:
  "and_then m f h = (Inr x, h') \<longleftrightarrow> (\<exists>y h1. m h = (Inr y, h1) \<and> f y h1 = (Inr x, h'))"
  by (auto simp: and_then_def split: prod.splits sum.splits)

lemma self_iloc_Inr:
  assumes "sa_data self = Some r"
  shows "self_iloc self name i h = (Inr v, h') \<longleftrightarrow>
           r < length h \<and> h' = h \<and> bindE (getitem (h ! r) name) (\<lambda>col. iloc col i) = Inr v"
  using assms
  by (auto simp: self_iloc_def and_then_def self_get_def get_column_def lift_def bindE_def
      split: sum.splits)

lemma self_get_Inr:
  assumes "sa_data self = Some r"
  shows "self_get self name h = (Inr col, h') \<longleftrightarrow>
           r < length h \<and> h' = h \<and> getitem (h ! r) name = Inr col"
  using assms by (auto simp: self_get_def get_column_def)

lemma ret_Inr: "ret x h = (Inr y, h') \<longleftrightarrow> y = x \<and> h' = h"
  by (auto simp: ret_def)

lemma analyze_trend_Inr:
  assumes "sa_data self = Some r" and "analyze_trend self h = (Inr a, h')"
  shows "h' = h \<and> r < length h
       \<and> latest (h ! r) ''Close'' = Inr (latest_price a)
       \<and> latest (h ! r) ''SMA_10'' = Inr (sma_10 a)
       \<and> latest (h ! r) ''SMA_30'' = Inr (sma_30 a)
       \<and> latest (h ! r) ''RSI'' = Inr (rsi a)
       \<and> latest (h ! r) ''MACD'' = Inr (macd a)
       \<and> latest (h ! r) ''Signal'' = Inr (signal a)
       \<and> trend a =
            (if fgt (latest_price a) (sma_10 a) \<and> fgt (sma_10 a) (sma_30 a) then StrongBullish
             else if fgt (latest_price a) (sma_10 a) then ModeratelyBullish
             else if flt (latest_price a) (sma_10 a) \<and> flt (sma_10 a) (sma_30 a) then StrongBearish
             else if flt (latest_price a) (sma_10 a) then ModeratelyBearish
             else Sideways)
       \<and> rsi_signal a =
            (if fgt (rsi a) (Fin 70) then Overbought
             else if flt (rsi a) (Fin 30) then Oversold else Neutral)
       \<and> macd_signal a = (if fgt (macd a) (signal a) then Bullish else Bearish)"
  using assms(2)
  unfolding analyze_trend_def Let_def and_then_Inr self_iloc_Inr[OF assms(1)]
    self_get_Inr[OF assms(1)] ret_Inr latest_def
  by (elim exE conjE) simp

lemma get_column_Inr:
  "get_column r name h = (Inr col, h') \<longleftrightarrow>
     r < length h \<and> h' = h \<and> getitem (h ! r) name = Inr col"
  by (auto simp: get_column_def)

lemma col_iloc_Inr:
  "col_iloc r name i h = (Inr v, h') \<longleftrightarrow>
     r < length h \<and> h' = h \<and> bindE (getitem (h ! r) name) (\<lambda>col. iloc col i) = Inr v"
  by (auto simp: col_iloc_def and_then_def get_column_def lift_def bindE_def split: sum.splits)

lemma frame_Inr: "frame r h = (Inr df, h') \<longleftrightarrow> r < length h \<and> h' = h \<and> df = h ! r"
  by (auto simp: frame_def)

lemma if_prog_Inr:
  "(if c then p else q) h = (Inr v, h') \<longleftrightarrow>
     (c \<and> p h = (Inr v, h')) \<or> (\<not> c \<and> q h = (Inr v, h'))"
  by simp

lemma single_analysis_Inr:
  assumes "single_analysis r h = (Inr m, h')"
  shows "h' = h \<and> r < length h
       \<and> latest (h ! r) ''Close'' = Inr (m_latest m)
       \<and> (\<exists>v. latest (h ! r) ''RSI'' = Inr v \<and> m_rsi m = (if isna v then Fin 0 else v))
       \<and> (\<exists>v. latest (h ! r) ''MACD'' = Inr v \<and> m_macd_val m = (if isna v then Fin 0 else v))
       \<and> (\<exists>v. latest (h ! r) ''Signal'' = Inr v \<and> m_signal_val m = (if isna v then Fin 0 else v))
       \<and> (\<exists>s10 s30. latest (h ! r) ''SMA_10'' = Inr s10 \<and> latest (h ! r) ''SMA_30'' = Inr s30
            \<and> m_trend_text m =
                 (if \<not> isna s10 \<and> \<not> isna s30
                  then (if fgt (m_latest m) s10 \<and> fgt s10 s30 then StrongBullish
                        else if fgt (m_latest m) s10 then ModeratelyBullish
                        else if flt (m_latest m) s10 \<and> flt s10 s30 then StrongBearish
                        else if flt (m_latest m) s10 then ModeratelyBearish
                        else Sideways)
                  else DataShortage))
       \<and> m_rsi_label m =
            (if fgt (m_rsi m) (Fin 70) then Overbought
             else if flt (m_rsi m) (Fin 30) then Oversold else Neutral)
       \<and> m_macd_label m = (if fgt (m_macd_val m) (m_signal_val m) then Bullish else Bearish)"
  using assms
  unfolding single_analysis_def Let_def and_then_Inr if_prog_Inr col_iloc_Inr
    get_column_Inr frame_Inr ret_Inr latest_def
  by (elim exE conjE disjE) auto

text \<open>The analysis returns an assessment on every table that has rows and the columns it
  reads.\<close>

lemma iloc_last: "col \<noteq> [] \<Longrightarrow> iloc col (- 1) = Inr (last col)"
  by (cases col rule: rev_cases) (simp_all add: iloc_def nat_add_distrib)

lemma iloc_first: "col \<noteq> [] \<Longrightarrow> iloc col 0 = Inr (hd col)"
  by (cases col) (simp_all add: iloc_def)

lemma iloc_second_last:
  "1 < length col \<Longrightarrow> iloc col (- 2) = Inr (col ! (length col - 2))"
proof -
  assume a: "1 < length col"
  then have "nat (int (length col) + - 2) = length col - 2" by linarith
  with a show ?thesis by (simp add: iloc_def)
qed

lemma has_rows_col:
  assumes "has_rows df names" and "name \<in> set names"
  obtains col where "getitem df name = Inr col" and "length col = df_len df" and "col \<noteq> []"
proof -
  from assms have "case getitem df name of Inl e \<Rightarrow> False
                     | Inr col \<Rightarrow> length col = length (df_index df)"
    by (auto simp: has_rows_def list_all_iff)
  then obtain col where g: "getitem df name = Inr col" "length col = length (df_index df)"
    by (cases "getitem df name") auto
  from assms(1) have "0 < length (df_index df)" by (simp add: has_rows_def)
  with g(2) have "col \<noteq> []" by auto
  with g show ?thesis using that by (simp add: df_len_def)
qed

lemma analysis_succeeds:
  assumes "sa_data self = Some r" and "r < length h"
    and "has_rows (h ! r) analysis_columns"
  shows "(\<exists>a. analyze_trend self h = (Inr a, h)) \<and> (\<exists>m. single_analysis r h = (Inr m, h))"
proof -
  let ?df = "h ! r"
  note hr = has_rows_col[OF assms(3)]
  obtain close where close: "getitem ?df ''Close'' = Inr close" "length close = df_len ?df" "close \<noteq> []"
    by (rule hr[of "''Close''"]) (simp add: analysis_columns_def)
  obtain s10 where s10: "getitem ?df ''SMA_10'' = Inr s10" "s10 \<noteq> []"
    by (rule hr[of "''SMA_10''"]) (simp_all add: analysis_columns_def)
  obtain s30 where s30: "getitem ?df ''SMA_30'' = Inr s30" "s30 \<noteq> []"
    by (rule hr[of "''SMA_30''"]) (simp_all add: analysis_columns_def)
  obtain rs where rs: "getitem ?df ''RSI'' = Inr rs" "rs \<noteq> []"
    by (rule hr[of "''RSI''"]) (simp_all add: analysis_columns_def)
  obtain mc where mc: "getitem ?df ''MACD'' = Inr mc" "mc \<noteq> []"
    by (rule hr[of "''MACD''"]) (simp_all add: analysis_columns_def)
  obtain sg where sg: "getitem ?df ''Signal'' = Inr sg" "sg \<noteq> []"
    by (rule hr[of "''Signal''"]) (simp_all add: analysis_columns_def)
  obtain vo where vo: "getitem ?df ''Volatility'' = Inr vo" "vo \<noteq> []"
    by (rule hr[of "''Volatility''"]) (simp_all add: analysis_columns_def)
  obtain hi where hi: "getitem ?df ''High'' = Inr hi"
    by (rule hr[of "''High''"]) (simp_all add: analysis_columns_def)
  obtain lo where lo: "getitem ?df ''Low'' = Inr lo"
    by (rule hr[of "''Low''"]) (simp_all add: analysis_columns_def)
  obtain vl where vl: "getitem ?df ''Volume'' = Inr vl"
    by (rule hr[of "''Volume''"]) (simp_all add: analysis_columns_def)
  have "\<exists>a. analyze_trend self h = (Inr a, h)"
    using assms(1,2)
    by (simp add: analyze_trend_def and_then_def self_iloc_def self_get_def get_column_def
        lift_def ret_def close s10 s30 rs mc sg vo hi lo vl iloc_last iloc_first Let_def)
  moreover have "\<exists>m. single_analysis r h = (Inr m, h)"
    using assms(2) close(2)
    by (simp add: single_analysis_def and_then_def col_iloc_def frame_def get_column_def
        lift_def ret_def close(1,3) s10 s30 rs mc sg vl iloc_last iloc_first iloc_second_last
        Let_def)
  ultimately show ?thesis by simp
qed

lemmas series_eval =
  rolling_mean_def rolling_std_def window_def window_mean_def window_std_def
  rsi_series_def macd_series_def s_diff_def s_where_def s_gt_def s_lt_def s_neg_def
  s_div_def s_sub_def s_add_def c_sub_def c_div_def c_add_def s_mul_c_def s_div_c_def
  s_sub_c_def ewm_mean_def pct_change_def fsub_def flt_def s_max_def s_min_def s_mean_def
  iloc_def Let_def

lemma one_bar_table:
  "with_indicators [Fin 100] (ohlcv [0] [Fin 100]) =
     \<lparr>df_index = [0],
      df_columns = [(''Open'', [Fin 100]), (''High'', [Fin 100]), (''Low'', [Fin 100]),
                    (''Close'', [Fin 100]), (''Volume'', [Fin 1000]),
                    (''SMA_10'', [NaN]), (''SMA_30'', [NaN]), (''SMA_60'', [NaN]),
                    (''Volatility'', [NaN]), (''RSI'', [NaN]), (''MACD'', [Fin 0]),
                    (''Signal'', [Fin 0]), (''Histogram'', [Fin 0]), (''BB_Middle'', [NaN]),
                    (''BB_Upper'', [NaN]), (''BB_Lower'', [NaN])]\<rparr>"
  by (simp add: with_indicators_def ohlcv_def setitem_def series_eval)

text \<open>
  Claim C2 fails in \<open>analyze_trend\<close>: \<open>run\<close> on a series of one bar, where
  SMA\_10 and SMA\_30 are both undefined, reports the trend "Sideways", one of the five
  trend labels. The chain of comparisons has no test for NaN, and every comparison with
  NaN is false.
\<close>

theorem trend_label_without_history:
  "fst (run one_bar_source new_analyzer []) = Inr (True, Some
     \<lparr>trend = Sideways, latest_price = Fin 100, sma_10 = NaN, sma_30 = NaN,
      rsi = NaN, rsi_signal = Neutral, macd = Fin 0, signal = Fin 0,
      macd_signal = Bearish, period_return = Fin 0, volatility = NaN, high = Fin 100,
      low = Fin 100, avg_volume = Fin 1000\<rparr>)"
proof -
  let ?self = "new_analyzer\<lparr>sa_data := Some 0\<rparr>"
  have 1: "sa_data ?self = Some 0" by simp
  have 2: "0 < length [ohlcv [0] [Fin 100]]" by simp
  have 3: "getitem ([ohlcv [0] [Fin 100]] ! 0) ''Close'' = Inr [Fin 100]"
    by (simp add: getitem_def ohlcv_def)
  have ne: "\<not> df_empty (ohlcv [0] [Fin 100])" by (simp add: df_empty_def ohlcv_def)
  show ?thesis
    by (simp add: run_def fetch_data_def one_bar_source_def alloc_def and_then_def ret_def ne
        calc_ti_char[OF 1 2 3] one_bar_table analyze_trend_def self_iloc_def self_get_def
        get_column_def lift_def getitem_def setitem_def series_eval)
qed

text \<open>
  Claim C7 fails in the dashboard: on a series of one bar the RSI is undefined, the page
  replaces it by 0 and labels it "oversold". The same page shows the "data shortage"
  badge for the trend, which is what claim C2 asks for.
\<close>

theorem undefined_rsi_shown_oversold:
  "fst (single_mode one_bar_source [''AAPL''] ''1d'' []) = Inr (SingleView
     \<lparr>m_latest = Fin 100, m_change = Fin 0, m_change_pct = Fin 0,
      m_period_return = Fin 0, m_rsi = Fin 0, m_rsi_label = Oversold,
      m_macd_val = Fin 0, m_signal_val = Fin 0, m_macd_label = Bearish,
      m_trend_text = DataShortage, m_avg_volume = Fin (1 / 1000)\<rparr>)"
proof -
  have 2: "0 < length [ohlcv [0] [Fin 100]]" by simp
  have 3: "getitem ([ohlcv [0] [Fin 100]] ! 0) ''Close'' = Inr [Fin 100]"
    by (simp add: getitem_def ohlcv_def)
  have ne: "\<not> df_empty (ohlcv [0] [Fin 100])" by (simp add: df_empty_def ohlcv_def)
  show ?thesis
    by (simp add: single_mode_def one_bar_source_def alloc_def and_then_def ret_def ne
        calc_ind_char[OF 2 3] one_bar_table single_analysis_def col_iloc_def frame_def
        get_column_def lift_def getitem_def df_len_def series_eval)
qed

lemma empty_table:
  "with_indicators [] (ohlcv [] []) =
     \<lparr>df_index = [],
      df_columns = [(''Open'', []), (''High'', []), (''Low'', []),
                    (''Close'', []), (''Volume'', []),
                    (''SMA_10'', []), (''SMA_30'', []), (''SMA_60'', []),
                    (''Volatility'', []), (''RSI'', []), (''MACD'', []),
                    (''Signal'', []), (''Histogram'', []), (''BB_Middle'', []),
                    (''BB_Upper'', []), (''BB_Lower'', [])]\<rparr>"
  by (simp add: with_indicators_def ohlcv_def setitem_def series_eval)

text \<open>Claim C4 as stated fails in \<open>analyze_trend\<close>: on the table computed from a frame
  without rows it raises IndexError.\<close>

theorem analyze_trend_empty_counterexample:
  "fst (analyze_trend analyzer0 (snd (calculate_technical_indicators analyzer0 [ohlcv [] []])))
     = Inl IndexError"
proof -
  have 1: "sa_data analyzer0 = Some 0" by (simp add: analyzer0_def)
  have 2: "0 < length [ohlcv [] []]" by simp
  have 3: "getitem ([ohlcv [] []] ! 0) ''Close'' = Inr []"
    by (simp add: getitem_def ohlcv_def)
  show ?thesis
    by (subst calc_ti_char[OF 1 2 3])
       (simp add: empty_table analyze_trend_def self_iloc_def
        self_get_def get_column_def lift_def and_then_def getitem_def setitem_def analyzer0_def
        iloc_def)
qed

lemma spec_trend_eq:
  "spec_trend c s10 s30 =
     (if fgt c s10 \<and> fgt s10 s30 then StrongBullish
      else if fgt c s10 then ModeratelyBullish
      else if flt c s10 \<and> flt s10 s30 then StrongBearish
      else if flt c s10 then ModeratelyBearish
      else Sideways)"
  by (simp add: spec_trend_def)

lemma isna_iff: "isna x \<longleftrightarrow> x = NaN"
  by (cases x) simp_all

text \<open>
  Claim C5. On a table that has rows and the columns the analysis reads, and whose last
  row has defined values of Close, SMA\_10 and SMA\_30, \<open>analyze_trend\<close> returns an
  assessment and the single-symbol page computes its metrics, and the trend label of
  each is the label of the ordered decision table of the specification: strong bullish,
  else bullish, else strong bearish, else bearish, else sideways.
\<close>

theorem trend_decision_tree:
  assumes "sa_data self = Some r" and "r < length h"
    and "has_rows (h ! r) analysis_columns"
    and "latest (h ! r) ''Close'' = Inr c"
    and "latest (h ! r) ''SMA_10'' = Inr s10"
    and "latest (h ! r) ''SMA_30'' = Inr s30"
    and "c \<noteq> NaN" and "s10 \<noteq> NaN" and "s30 \<noteq> NaN"
  shows "(\<exists>a. analyze_trend self h = (Inr a, h) \<and> trend a = spec_trend c s10 s30)
       \<and> (\<exists>m. single_analysis r h = (Inr m, h) \<and> m_trend_text m = spec_trend c s10 s30)"
proof -
  from analysis_succeeds[OF assms(1-3)]
  obtain a m where a: "analyze_trend self h = (Inr a, h)" and m: "single_analysis r h = (Inr m, h)"
    by blast
  from analyze_trend_Inr[OF assms(1) a] assms(4-6)
  have "trend a = spec_trend c s10 s30" by (simp add: spec_trend_eq)
  moreover from single_analysis_Inr[OF m] assms(4-9)
  have "m_trend_text m = spec_trend c s10 s30" by (auto simp add: spec_trend_eq isna_iff)
  ultimately show ?thesis using a m by blast
qed

lemma latest_table1:
  "latest ([table1 c s10 s30] ! 0) ''Close'' = Inr c"
  "latest ([table1 c s10 s30] ! 0) ''SMA_10'' = Inr s10"
  "latest ([table1 c s10 s30] ! 0) ''SMA_30'' = Inr s30"
  "latest ([table1 c s10 s30] ! 0) ''MACD'' = Inr (Fin (1/2))"
  "latest ([table1 c s10 s30] ! 0) ''Signal'' = Inr (Fin (1/2))"
  by (simp_all add: latest_def bindE_def getitem_def table1_def iloc_def)

lemma has_rows_table1: "has_rows ([table1 c s10 s30] ! 0) analysis_columns"
  by (simp add: has_rows_def analysis_columns_def getitem_def table1_def)

lemma spec_trend_examples:
  "spec_trend (Fin 110) (Fin 105) (Fin 100) = StrongBullish"
  "spec_trend (Fin 90) (Fin 95) (Fin 100) = StrongBearish"
  "spec_trend (Fin 100) (Fin 100) (Fin 100) = Sideways"
  by (simp_all add: spec_trend_def flt_def)

text \<open>The theorem at the three examples of the claim: close 110, SMA\_10 105, SMA\_30 100
  is strong bullish; 90, 95, 100 is strong bearish; 100, 100, 100 is sideways.\<close>

theorem trend_decision_tree_witness:
  "sa_data analyzer0 = Some 0
   \<and> 0 < length [table1 (Fin 110) (Fin 105) (Fin 100)]
   \<and> has_rows ([table1 (Fin 110) (Fin 105) (Fin 100)] ! 0) analysis_columns
   \<and> latest ([table1 (Fin 110) (Fin 105) (Fin 100)] ! 0) ''Close'' = Inr (Fin 110)
   \<and> latest ([table1 (Fin 110) (Fin 105) (Fin 100)] ! 0) ''SMA_10'' = Inr (Fin 105)
   \<and> latest ([table1 (Fin 110) (Fin 105) (Fin 100)] ! 0) ''SMA_30'' = Inr (Fin 100)
   \<and> Fin 110 \<noteq> NaN \<and> Fin 105 \<noteq> NaN \<and> Fin 100 \<noteq> NaN
   \<and> (\<exists>a. analyze_trend analyzer0 [table1 (Fin 110) (Fin 105) (Fin 100)]
               = (Inr a, [table1 (Fin 110) (Fin 105) (Fin 100)])
          \<and> trend a = StrongBullish)
   \<and> (\<exists>m. single_analysis 0 [table1 (Fin 110) (Fin 105) (Fin 100)]
               = (Inr m, [table1 (Fin 110) (Fin 105) (Fin 100)])
          \<and> m_trend_text m = StrongBullish)
   \<and> (\<exists>a. analyze_trend analyzer0 [table1 (Fin 90) (Fin 95) (Fin 100)]
               = (Inr a, [table1 (Fin 90) (Fin 95) (Fin 100)])
          \<and> trend a = StrongBearish)
   \<and> (\<exists>m. single_analysis 0 [table1 (Fin 90) (Fin 95) (Fin 100)]
               = (Inr m, [table1 (Fin 90) (Fin 95) (Fin 100)])
          \<and> m_trend_text m = StrongBearish)
   \<and> (\<exists>a. analyze_trend analyzer0 [table1 (Fin 100) (Fin 100) (Fin 100)]
               = (Inr a, [table1 (Fin 100) (Fin 100) (Fin 100)])
          \<and> trend a = Sideways)
   \<and> (\<exists>m. single_analysis 0 [table1 (Fin 100) (Fin 100) (Fin 100)]
               = (Inr m, [table1 (Fin 100) (Fin 100) (Fin 100)])
          \<and> m_trend_text m = Sideways)"
proof -
  have 1: "sa_data analyzer0 = Some 0" by (simp add: analyzer0_def)
  have 2: "\<And>x::dataframe. 0 < length [x]" by simp
  have n: "Fin 110 \<noteq> NaN" "Fin 105 \<noteq> NaN" "Fin 100 \<noteq> NaN" "Fin 90 \<noteq> NaN" "Fin 95 \<noteq> NaN"
    by simp_all
  note a = trend_decision_tree[OF 1 2 has_rows_table1 latest_table1(1-3) n(1,2,3),
      unfolded spec_trend_examples]
  note b = trend_decision_tree[OF 1 2 has_rows_table1 latest_table1(1-3) n(4,5,3),
      unfolded spec_trend_examples]
  note c = trend_decision_tree[OF 1 2 has_rows_table1 latest_table1(1-3) n(3,3,3),
      unfolded spec_trend_examples]
  from 1 2 has_rows_table1 latest_table1(1-3) n(1-3) a b c show ?thesis
    by (intro conjI) (blast+)?
qed

text \<open>
  Claim C6. On a table that has rows and the columns the analysis reads, and whose last
  row has defined values of MACD and Signal, \<open>analyze_trend\<close> returns an assessment
  and the single-symbol page computes its metrics, and the MACD signal of each is
  "bullish" exactly when MACD is strictly greater than Signal, and "bearish" otherwise.
\<close>

theorem macd_crossover_signal:
  assumes "sa_data self = Some r" and "r < length h"
    and "has_rows (h ! r) analysis_columns"
    and "latest (h ! r) ''MACD'' = Inr mv"
    and "latest (h ! r) ''Signal'' = Inr sv"
    and "mv \<noteq> NaN" and "sv \<noteq> NaN"
  shows "(\<exists>a. analyze_trend self h = (Inr a, h)
            \<and> (macd_signal a = Bullish \<longleftrightarrow> fgt mv sv) \<and> (macd_signal a = Bearish \<longleftrightarrow> \<not> fgt mv sv))
       \<and> (\<exists>m. single_analysis r h = (Inr m, h)
            \<and> (m_macd_label m = Bullish \<longleftrightarrow> fgt mv sv) \<and> (m_macd_label m = Bearish \<longleftrightarrow> \<not> fgt mv sv))"
proof -
  from analysis_succeeds[OF assms(1-3)]
  obtain a m where a: "analyze_trend self h = (Inr a, h)" and m: "single_analysis r h = (Inr m, h)"
    by blast
  from analyze_trend_Inr[OF assms(1) a] assms(4,5)
  have "macd_signal a = (if fgt mv sv then Bullish else Bearish)" by simp
  then have 1: "(macd_signal a = Bullish \<longleftrightarrow> fgt mv sv) \<and> (macd_signal a = Bearish \<longleftrightarrow> \<not> fgt mv sv)"
    by simp
  from single_analysis_Inr[OF m] assms(4-7)
  have "m_macd_label m = (if fgt mv sv then Bullish else Bearish)" by (auto simp add: isna_iff)
  then have 2: "(m_macd_label m = Bullish \<longleftrightarrow> fgt mv sv) \<and> (m_macd_label m = Bearish \<longleftrightarrow> \<not> fgt mv sv)"
    by simp
  from a m 1 2 show ?thesis by blast
qed

lemma has_rows_macd_table: "has_rows ([macd_table m s] ! 0) analysis_columns"
  by (simp add: has_rows_def analysis_columns_def getitem_def macd_table_def)

lemma latest_macd_table:
  "latest ([macd_table m s] ! 0) ''MACD'' = Inr m"
  "latest ([macd_table m s] ! 0) ''Signal'' = Inr s"
  by (simp_all add: latest_def bindE_def getitem_def macd_table_def iloc_def)

text \<open>The theorem at MACD = Signal = 0.5, which is bearish, and at MACD 0.7 over Signal
  0.5, which is bullish.\<close>

theorem macd_crossover_signal_witness:
  "sa_data analyzer0 = Some 0
   \<and> 0 < length [macd_table (Fin (1/2)) (Fin (1/2))]
   \<and> has_rows ([macd_table (Fin (1/2)) (Fin (1/2))] ! 0) analysis_columns
   \<and> latest ([macd_table (Fin (1/2)) (Fin (1/2))] ! 0) ''MACD'' = Inr (Fin (1/2))
   \<and> latest ([macd_table (Fin (1/2)) (Fin (1/2))] ! 0) ''Signal'' = Inr (Fin (1/2))
   \<and> Fin (1/2) \<noteq> NaN
   \<and> (\<exists>a. analyze_trend analyzer0 [macd_table (Fin (1/2)) (Fin (1/2))]
               = (Inr a, [macd_table (Fin (1/2)) (Fin (1/2))])
          \<and> macd_signal a = Bearish)
   \<and> (\<exists>m. single_analysis 0 [macd_table (Fin (1/2)) (Fin (1/2))]
               = (Inr m, [macd_table (Fin (1/2)) (Fin (1/2))])
          \<and> m_macd_label m = Bearish)
   \<and> (\<exists>a. analyze_trend analyzer0 [macd_table (Fin (7/10)) (Fin (1/2))]
               = (Inr a, [macd_table (Fin (7/10)) (Fin (1/2))])
          \<and> macd_signal a = Bullish)
   \<and> (\<exists>m. single_analysis 0 [macd_table (Fin (7/10)) (Fin (1/2))]
               = (Inr m, [macd_table (Fin (7/10)) (Fin (1/2))])
          \<and> m_macd_label m = Bullish)"
proof -
  have 1: "sa_data analyzer0 = Some 0" by (simp add: analyzer0_def)
  have 2: "\<And>x::dataframe. 0 < length [x]" by simp
  have n: "Fin (1/2) \<noteq> NaN" "Fin (7/10) \<noteq> NaN" by simp_all
  have f: "\<not> fgt (Fin (1/2)) (Fin (1/2))" "fgt (Fin (7/10)) (Fin (1/2))" by simp_all
  note a = macd_crossover_signal[OF 1 2 has_rows_macd_table latest_macd_table n(1,1)]
  note b = macd_crossover_signal[OF 1 2 has_rows_macd_table latest_macd_table n(2,1)]
  from a f(1) have a': "(\<exists>a. analyze_trend analyzer0 [macd_table (Fin (1/2)) (Fin (1/2))]
               = (Inr a, [macd_table (Fin (1/2)) (Fin (1/2))]) \<and> macd_signal a = Bearish)
      \<and> (\<exists>m. single_analysis 0 [macd_table (Fin (1/2)) (Fin (1/2))]
               = (Inr m, [macd_table (Fin (1/2)) (Fin (1/2))]) \<and> m_macd_label m = Bearish)"
    by blast
  from b f(2) have b': "(\<exists>a. analyze_trend analyzer0 [macd_table (Fin (7/10)) (Fin (1/2))]
               = (Inr a, [macd_table (Fin (7/10)) (Fin (1/2))]) \<and> macd_signal a = Bullish)
      \<and> (\<exists>m. single_analysis 0 [macd_table (Fin (7/10)) (Fin (1/2))]
               = (Inr m, [macd_table (Fin (7/10)) (Fin (1/2))]) \<and> m_macd_label m = Bullish)"
    by blast
  from 1 2 has_rows_macd_table latest_macd_table n(1) a' b' show ?thesis
    by (intro conjI) (blast+)?
qed

lemma analyze_table1_110:
  "analyze_trend analyzer0 [table1 (Fin 110) (Fin 105) (Fin 100)] = (Inr
     \<lparr>trend = StrongBullish, latest_price = Fin 110, sma_10 = Fin 105, sma_30 = Fin 100,
      rsi = Fin 55, rsi_signal = Neutral, macd = Fin (1/2), signal = Fin (1/2),
      macd_signal = Bearish, period_return = Fin 0, volatility = Fin 2, high = Fin 110,
      low = Fin 110, avg_volume = Fin 1000\<rparr>, [table1 (Fin 110) (Fin 105) (Fin 100)])"
  by (simp add: analyze_trend_def and_then_def self_iloc_def self_get_def get_column_def
      lift_def ret_def getitem_def table1_def analyzer0_def series_eval)

lemma single_table1_110:
  "single_analysis 0 [table1 (Fin 110) (Fin 105) (Fin 100)] = (Inr
     \<lparr>m_latest = Fin 110, m_change = Fin 0, m_change_pct = Fin 0,
      m_period_return = Fin 0, m_rsi = Fin 55, m_rsi_label = Neutral,
      m_macd_val = Fin (1/2), m_signal_val = Fin (1/2), m_macd_label = Bearish,
      m_trend_text = StrongBullish, m_avg_volume = Fin (1 / 1000)\<rparr>,
     [table1 (Fin 110) (Fin 105) (Fin 100)])"
  by (simp add: single_analysis_def and_then_def col_iloc_def frame_def get_column_def
      lift_def ret_def getitem_def table1_def df_len_def series_eval)

text \<open>The other two examples of claim C5 (strong bearish, sideways), and a table
  whose SMA\_30 is undefined: \<open>analyze_trend\<close> still names a trend, the dashboard
  shows the data-shortage badge.\<close>

lemma trend_examples:
  "map_sum id trend (fst (analyze_trend analyzer0 [table1 (Fin 90) (Fin 95) (Fin 100)])) = Inr StrongBearish"
  "map_sum id trend (fst (analyze_trend analyzer0 [table1 (Fin 100) (Fin 100) (Fin 100)])) = Inr Sideways"
  "map_sum id m_trend_text (fst (single_analysis 0 [table1 (Fin 90) (Fin 95) (Fin 100)])) = Inr StrongBearish"
  "map_sum id m_trend_text (fst (single_analysis 0 [table1 (Fin 100) (Fin 100) (Fin 100)])) = Inr Sideways"
  "map_sum id trend (fst (analyze_trend analyzer0 [table1 (Fin 110) (Fin 105) NaN])) = Inr ModeratelyBullish"
  "map_sum id m_trend_text (fst (single_analysis 0 [table1 (Fin 110) (Fin 105) NaN])) = Inr DataShortage"
  by (simp_all add: analyze_trend_def single_analysis_def and_then_def self_iloc_def self_get_def
      col_iloc_def frame_def df_len_def get_column_def
      lift_def ret_def getitem_def table1_def analyzer0_def series_eval)

lemma with_indicators_empty:
  "map (getitem (with_indicators [] df)) indicator_names = replicate 11 (Inr [])"
  by (simp add: getitem_with_indicators series_eval numeral_eq_Suc)

text \<open>
  Claim C4, as amended. On a frame without rows both indicator functions return without
  an exception, and the table they leave is empty: no rows, and every indicator column
  is the empty Series. The pipelines do not ask for the latest values of an empty
  series: when the fetched frame is empty, \<open>run\<close> returns \<open>False\<close> and the
  single-symbol page reports that no data was found, both before any indicator is
  computed.
\<close>

theorem empty_series_handling:
  assumes "sa_data self = Some r" and "r < length h"
    and "df_index (h ! r) = []" and "getitem (h ! r) ''Close'' = Inr []"
    and "yf (sa_ticker s) (sa_period s) = Inr df"
    and "yf ticker selected_period = Inr df" and "df_empty df"
  shows "(\<exists>t. calculate_technical_indicators self h = (Inr (), h[r := t]) \<and> df_empty t
            \<and> map (getitem t) indicator_names = replicate 11 (Inr []))
       \<and> (\<exists>t. calculate_indicators r h = (Inr (length h), h @ [t]) \<and> df_empty t
            \<and> map (getitem t) indicator_names = replicate 11 (Inr []))
       \<and> run yf s g = (Inr (False, None), g @ [df])
       \<and> single_mode yf (ticker # rest) selected_period g = (Inr NotFound, g @ [df])"
proof -
  let ?t = "with_indicators [] (h ! r)"
  let ?s = "setitem ?t ''Daily_Return'' (s_mul_c (pct_change []) (Fin 100))"
  have e: "df_empty ?t" "df_empty ?s"
    using assms(3) by (simp_all add: df_empty_def df_index_setitem df_index_with_indicators)
  have "map (getitem ?s) indicator_names = map (getitem ?t) indicator_names"
    by (simp add: indicator_names_def getitem_setitem)
  then have c: "map (getitem ?s) indicator_names = replicate 11 (Inr [])"
    by (simp only: with_indicators_empty)
  have a: "calculate_technical_indicators self h = (Inr (), h[r := ?s])"
    using assms(1,2,4) by (rule calc_ti_char)
  have b: "calculate_indicators r h = (Inr (length h), h @ [?t])"
    using assms(2,4) by (rule calc_ind_char)
  have d: "run yf s g = (Inr (False, None), g @ [df])"
    using assms(5,7) by (simp add: run_def fetch_data_def and_then_def alloc_def ret_def)
  have f: "single_mode yf (ticker # rest) selected_period g = (Inr NotFound, g @ [df])"
    using assms(6,7) by (simp add: single_mode_def and_then_def alloc_def ret_def)
  from a b c d e f with_indicators_empty[of "h ! r"] show ?thesis by blast
qed

text \<open>The theorem at a frame without rows and a data source that returns it.\<close>

theorem empty_series_handling_witness:
  "sa_data analyzer0 = Some 0 \<and> 0 < length [ohlcv [] []]
   \<and> df_index ([ohlcv [] []] ! 0) = [] \<and> getitem ([ohlcv [] []] ! 0) ''Close'' = Inr []
   \<and> empty_source (sa_ticker new_analyzer) (sa_period new_analyzer) = Inr (ohlcv [] [])
   \<and> empty_source ''AAPL'' ''1d'' = Inr (ohlcv [] [])
   \<and> df_empty (ohlcv [] [])
   \<and> (\<exists>t. calculate_technical_indicators analyzer0 [ohlcv [] []] = (Inr (), [ohlcv [] []][0 := t])
          \<and> df_empty t \<and> map (getitem t) indicator_names = replicate 11 (Inr []))
   \<and> (\<exists>t. calculate_indicators 0 [ohlcv [] []] = (Inr (length [ohlcv [] []]), [ohlcv [] []] @ [t])
          \<and> df_empty t \<and> map (getitem t) indicator_names = replicate 11 (Inr []))
   \<and> run empty_source new_analyzer [] = (Inr (False, None), [] @ [ohlcv [] []])
   \<and> single_mode empty_source (''AAPL'' # []) ''1d'' [] = (Inr NotFound, [] @ [ohlcv [] []])"
proof -
  have 1: "sa_data analyzer0 = Some 0" by (simp add: analyzer0_def)
  have 2: "0 < length [ohlcv [] []]" by simp
  have 3: "df_index ([ohlcv [] []] ! 0) = []" by (simp add: ohlcv_def)
  have 4: "getitem ([ohlcv [] []] ! 0) ''Close'' = Inr []" by (simp add: getitem_def ohlcv_def)
  have 5: "empty_source (sa_ticker new_analyzer) (sa_period new_analyzer) = Inr (ohlcv [] [])"
    by (simp add: empty_source_def)
  have 6: "empty_source ''AAPL'' ''1d'' = Inr (ohlcv [] [])" by (simp add: empty_source_def)
  have 7: "df_empty (ohlcv [] [])" by (simp add: df_empty_def ohlcv_def)
  from empty_series_handling[OF 1 2 3 4 5 6 7, of "[]" "[]"] 1 2 3 4 5 6 7
  show ?thesis by blast
qed

text \<open>On the table that \<open>calculate_technical_indicators\<close> leaves for a frame with at
  least one bar and the price columns read by the analysis, \<open>analyze_trend\<close> returns
  an assessment.\<close>

lemma length_ewm_loop [simp]: "length (ewm_loop \<alpha> w ow xs) = length xs"
  by (induction xs arbitrary: w ow) (simp_all add: Let_def)

lemma length_ewm_mean [simp]: "length (ewm_mean n xs) = length xs"
  by (cases xs) (simp_all add: ewm_mean_def)

lemma length_rolling_std [simp]: "length (rolling_std k xs) = length xs"
  by (simp add: rolling_std_def)

lemma length_macd_series [simp]: "length (macd_series xs) = length xs"
  by (simp add: macd_series_def s_sub_def)

lemma nonempty_length: "xs \<noteq> [] \<longleftrightarrow> 0 < length xs"
  by simp

lemma analyze_after_indicators:
  assumes "sa_data self = Some r" and "r < length h"
    and "getitem (h ! r) ''Close'' = Inr close" and "close \<noteq> []"
    and "getitem (h ! r) ''High'' = Inr hi" and "getitem (h ! r) ''Low'' = Inr lo"
    and "getitem (h ! r) ''Volume'' = Inr vol"
  shows "\<exists>a h'. and_then (calculate_technical_indicators self) (\<lambda>_. analyze_trend self) h
                  = (Inr a, h')"
proof -
  let ?t = "setitem (with_indicators close (h ! r)) ''Daily_Return''
              (s_mul_c (pct_change close) (Fin 100))"
  have calc: "calculate_technical_indicators self h = (Inr (), h[r := ?t])"
    using assms(1-3) by (rule calc_ti_char)
  have ne: "rolling_mean 10 close \<noteq> []" "rolling_mean 30 close \<noteq> []"
    "rolling_std 20 close \<noteq> []" "rsi_series close \<noteq> []" "macd_series close \<noteq> []"
    "ewm_mean 9 (macd_series close) \<noteq> []"
    using assms(4) by (simp_all only: nonempty_length length_rolling_mean length_rolling_std
        length_rsi_series length_macd_series length_ewm_mean)
  have cols: "getitem ?t ''Close'' = Inr close" "getitem ?t ''High'' = Inr hi"
    "getitem ?t ''Low'' = Inr lo" "getitem ?t ''Volume'' = Inr vol"
    "getitem ?t ''SMA_10'' = Inr (rolling_mean 10 close)"
    "getitem ?t ''SMA_30'' = Inr (rolling_mean 30 close)"
    "getitem ?t ''Volatility'' = Inr (rolling_std 20 close)"
    "getitem ?t ''RSI'' = Inr (rsi_series close)"
    "getitem ?t ''MACD'' = Inr (macd_series close)"
    "getitem ?t ''Signal'' = Inr (ewm_mean 9 (macd_series close))"
    using assms(3,5-7)
    by (simp_all add: getitem_setitem with_indicators_def Let_def)
  show ?thesis
    using assms(1,2,4) ne
    by (simp add: and_then_def calc analyze_trend_def self_iloc_def self_get_def get_column_def
        lift_def ret_def cols iloc_last iloc_first Let_def)
qed

text \<open>An infinite close is a missing row of the moving averages: for the closes 1, inf, 2
  the MACD is 0, 0 and about 0.0973.\<close>

lemma macd_infinite_close:
  "macd_series [Fin 1, PInf, Fin 2] = [Fin 0, Fin 0, Fin (173 / 147 - 733 / 679)]"
  by (simp add: macd_series_def ewm_mean_def s_sub_def fsub_def Let_def)

section \<open>The comparison of several tickers\<close>

lemma cs_fetch_step_keys:
  "fst ` set (cs_fetch_step yf period acc t) =
     (if has_data yf period t then insert t (fst ` set acc) else fst ` set acc)"
  by (simp add: cs_fetch_step_def has_data_def dom_update split: sum.splits)

lemma cs_fetch_step_distinct:
  "distinct (map fst acc) \<Longrightarrow> distinct (map fst (cs_fetch_step yf period acc t))"
  by (auto simp: cs_fetch_step_def distinct_update split: sum.splits)

lemma foldl_fetch_keys:
  "fst ` set (foldl (cs_fetch_step yf period) acc ts) =
     fst ` set acc \<union> set (filter (has_data yf period) ts)"
proof (induction ts arbitrary: acc)
  case Nil
  show ?case by simp
next
  case (Cons t ts)
  show ?case
    by (simp only: foldl_Cons Cons.IH cs_fetch_step_keys) auto
qed

lemma foldl_fetch_distinct:
  "distinct (map fst acc) \<Longrightarrow> distinct (map fst (foldl (cs_fetch_step yf period) acc ts))"
  by (induction ts arbitrary: acc) (auto simp: cs_fetch_step_distinct)

lemma cs_fetch_keys:
  "fst ` set (cs_fetch yf period tickers) = set (filter (has_data yf period) tickers)"
  unfolding cs_fetch_def foldl_fetch_keys by simp

lemma cs_fetch_length:
  "length (cs_fetch yf period tickers) = length (remdups (filter (has_data yf period) tickers))"
proof -
  have "distinct (map fst (cs_fetch yf period tickers))"
    unfolding cs_fetch_def by (rule foldl_fetch_distinct) simp
  then have "length (map fst (cs_fetch yf period tickers))
               = card (set (map fst (cs_fetch yf period tickers)))"
    by (simp only: distinct_card)
  also have "\<dots> = card (set (filter (has_data yf period) tickers))"
    by (simp only: set_map cs_fetch_keys)
  also have "\<dots> = length (remdups (filter (has_data yf period) tickers))"
    by (simp only: length_remdups_card_conv)
  finally show ?thesis by simp
qed

lemma app_fetch_step_eq: "app_fetch_step = cs_fetch_step"
  by (intro ext) (simp add: app_fetch_step_def cs_fetch_step_def)

lemma app_fetch_eq: "app_fetch = cs_fetch"
  by (intro ext) (simp add: app_fetch_def cs_fetch_def app_fetch_step_eq)

text \<open>
  Claim C8. When fewer than two of the requested tickers yield a frame that is not
  empty, \<open>compare_stocks\<close> returns \<open>False\<close> with no chart and no summary, and the
  comparison mode of the dashboard stops with one of its two messages. In every case the
  tickers entered in \<open>all_data\<close> are exactly the requested tickers whose fetch
  returned rows: a ticker that raises or comes back empty is left out and the others
  are still fetched.
\<close>

theorem comparison_needs_two_symbols:
  assumes "length (remdups (filter (has_data yf period) tickers)) < 2"
  shows "compare_stocks yf tickers period = Inr (False, None)
       \<and> (comparison_mode yf tickers period = Inr TooFewTickers
            \<or> comparison_mode yf tickers period = Inr InsufficientSymbols)
       \<and> set (map fst (cs_fetch yf period tickers)) = set (filter (has_data yf period) tickers)
       \<and> set (map fst (app_fetch yf period tickers)) = set (filter (has_data yf period) tickers)"
  using assms
  by (simp add: compare_stocks_def comparison_mode_def Let_def cs_fetch_length app_fetch_eq
      cs_fetch_keys)

text \<open>The theorem at three tickers of which one has data, one raises and one is
  empty.\<close>

theorem comparison_needs_two_symbols_witness:
  "length (remdups (filter (has_data mixed_source ''1mo'') [''AAPL'', ''BAD'', ''EMPTY''])) < 2
   \<and> compare_stocks mixed_source [''AAPL'', ''BAD'', ''EMPTY''] ''1mo'' = Inr (False, None)
   \<and> comparison_mode mixed_source [''AAPL'', ''BAD'', ''EMPTY''] ''1mo'' = Inr InsufficientSymbols
   \<and> map fst (cs_fetch mixed_source ''1mo'' [''AAPL'', ''BAD'', ''EMPTY'']) = [''AAPL'']
   \<and> map fst (app_fetch mixed_source ''1mo'' [''AAPL'', ''BAD'', ''EMPTY'']) = [''AAPL'']"
proof -
  have 1: "length (remdups (filter (has_data mixed_source ''1mo'') [''AAPL'', ''BAD'', ''EMPTY''])) < 2"
    by (simp add: has_data_def mixed_source_def df_empty_def ohlcv_def)
  have 2: "map fst (cs_fetch mixed_source ''1mo'' [''AAPL'', ''BAD'', ''EMPTY'']) = [''AAPL'']"
    by (simp add: cs_fetch_def cs_fetch_step_def mixed_source_def df_empty_def ohlcv_def)
  have 3: "comparison_mode mixed_source [''AAPL'', ''BAD'', ''EMPTY''] ''1mo'' \<noteq> Inr TooFewTickers"
    by (simp add: comparison_mode_def Let_def bindE_def split: sum.splits)
  from comparison_needs_two_symbols[OF 1] 1 2 3 show ?thesis
    by (simp add: app_fetch_eq)
qed

end
